theory Spec2Isabelle
  imports Main
begin

section \<open>The Streamlit application \<^verbatim>\<open>src/app.py\<close>\<close>

text \<open>
  \<^verbatim>\<open>app.py\<close> is a Streamlit script: every user interaction runs \<^verbatim>\<open>main()\<close> once from
  the top against the persistent \<^verbatim>\<open>st.session_state\<close>. One run is modelled as a function
  from the widget values of that run and the session state to the outcome of the run,
  the new session state and the trace of what the run did (its user-interface output and
  its calls of the collaborators). The collaborators \<^verbatim>\<open>PDFProcessor\<close>,
  \<^verbatim>\<open>EmbeddingManager\<close>, \<^verbatim>\<open>ChatManager\<close>, \<^verbatim>\<open>Config\<close> and the file system are not part
  of \<^verbatim>\<open>app.py\<close>; they are the fields of an environment record.
\<close>

subsection \<open>Data\<close>

text \<open>A Python exception: its class name and \<^verbatim>\<open>str(e)\<close>. \<open>Exn\<close> is an instance of
  \<^verbatim>\<open>Exception\<close>, which the two \<^verbatim>\<open>except Exception\<close> handlers of the script catch (lines 101
  and 158); \<open>BaseExn\<close> is a \<^verbatim>\<open>BaseException\<close> that is no \<^verbatim>\<open>Exception\<close>
  (\<^verbatim>\<open>KeyboardInterrupt\<close>, \<^verbatim>\<open>SystemExit\<close>, \<^verbatim>\<open>asyncio.CancelledError\<close>), which they let
  through.\<close>

datatype exn =
    is_exception: Exn (exn_class: string) (exn_str: string)
  | BaseExn (exn_class: string) (exn_str: string)

text \<open>The \<^verbatim>\<open>AttributeError\<close> of reading an attribute an object does not have.\<close>

definition no_attribute :: "string \<Rightarrow> string \<Rightarrow> exn" where
  "no_attribute cls name =
     Exn ''AttributeError''
       ([CHR 0x27] @ cls @ [CHR 0x27] @ '' object has no attribute '' @
        [CHR 0x27] @ name @ [CHR 0x27])"

text \<open>An uploaded or opened file: \<^verbatim>\<open>file.name\<close> and the offset \<^verbatim>\<open>file.tell()\<close> reports
  after \<^verbatim>\<open>file.seek(0, 2)\<close>.\<close>

record fileobj =
  fo_name :: string
  fo_size :: nat

text \<open>An element of \<^verbatim>\<open>files_to_process\<close>: \<^verbatim>\<open>isinstance(file, str)\<close> tells a path from a
  file object.\<close>

datatype source = FilePath string | FileObj fileobj

text \<open>An entry of \<^verbatim>\<open>st.session_state.messages\<close>: \<^verbatim>\<open>{"role": ..., "content": ...}\<close>.\<close>

record message =
  role :: string
  content :: string

text \<open>The texts shown by \<^verbatim>\<open>st.error\<close> and \<^verbatim>\<open>st.success\<close>, each with the values formatted
  into it (sizes in bytes: the script prints them divided by \<^verbatim>\<open>1024**3\<close> or \<^verbatim>\<open>1024**2\<close>).\<close>

datatype notice =
    MissingApiKey
  | FileTooLarge string nat
  | ErrorProcessing string
  | FailedEmbeddings
  | ProcessedChunks nat
  | InvalidPdfPath
  | FileNotFound
  | PathTooLarge nat
  | FileFound string nat
  | ErrorReading string
  | ChunksInMemory nat

datatype 'd event =
    StError notice
  | StSuccess notice
  | StWrite string string
  | CallGetsize string
  | CallOpen string
  | CallProcessDocument source
  | CallCreateEmbeddings "'d list"
  | CallSetRetriever
  | CallResetConversation
  | CallClearEmbeddings
  | CallSearch string
  | CallGenerateResponse string "'d list"

text \<open>
  The environment. A method of a collaborator object returns the object as the call left
  it together with its result, since Python mutates the object in place, also when the
  call raises. \<open>'d\<close> is a document chunk, \<open>'e\<close> the embedding manager, \<open>'c\<close> the chat
  manager and \<open>'r\<close> a retriever. The attribute \<^verbatim>\<open>retriever\<close> of the embedding manager is
  \<open>None\<close> when the object has no such attribute, \<open>Some None\<close> when its value is \<^verbatim>\<open>None\<close>
  and \<open>Some (Some r)\<close> when it is the retriever \<open>r\<close>.
\<close>

record ('d, 'e, 'c, 'r) env =
  config_is_valid :: bool
  google_api_key :: string
  path_exists :: "string \<Rightarrow> bool"
  getsize :: "string \<Rightarrow> exn + nat"
  basename :: "string \<Rightarrow> string"
  open_rb :: "string \<Rightarrow> exn + fileobj"
  process_document :: "fileobj \<Rightarrow> exn + 'd list"
  new_embedding_manager :: 'e
  create_embeddings :: "'e \<Rightarrow> 'd list \<Rightarrow> 'e \<times> (exn + bool)"
  has_clear_embeddings :: bool
  clear_embeddings :: "'e \<Rightarrow> 'e \<times> exn option"
  retriever :: "'e \<Rightarrow> 'r option option"
  search :: "'e \<Rightarrow> string \<Rightarrow> exn + 'd list"
  new_chat_manager :: "string \<Rightarrow> 'c"
  set_retriever :: "'c \<Rightarrow> 'r option \<Rightarrow> 'c \<times> exn option"
  reset_conversation :: "'c \<Rightarrow> 'c \<times> exn option"
  generate_response :: "'c \<Rightarrow> string \<Rightarrow> 'd list \<Rightarrow> 'c \<times> (exn + string)"

text \<open>\<^verbatim>\<open>st.session_state\<close>: each key may be absent (\<open>None\<close>, or \<open>False\<close> for the stateless
  processor).\<close>

record ('d, 'e, 'c) session_state =
  k_processor :: bool
  k_embedding_manager :: "'e option"
  k_chat_manager :: "'c option"
  k_messages :: "message list option"
  k_documents :: "'d list option"
  k_large_files :: "string list option"

text \<open>The session state once \<^verbatim>\<open>initialize_session_state\<close> has returned \<^verbatim>\<open>True\<close>: every key
  but \<^verbatim>\<open>large_files\<close> is present.\<close>

record ('d, 'e, 'c) session =
  embedding_manager :: 'e
  chat_manager :: 'c
  messages :: "message list"
  documents :: "'d list"
  large_files :: "string list option"

definition view :: "('d, 'e, 'c) session_state \<Rightarrow> ('d, 'e, 'c) session option" where
  "view st =
     (case (k_embedding_manager st, k_chat_manager st, k_messages st, k_documents st) of
        (Some em, Some cm, Some ms, Some ds) \<Rightarrow>
          if k_processor st
          then Some \<lparr>embedding_manager = em, chat_manager = cm, messages = ms,
                     documents = ds, large_files = k_large_files st\<rparr>
          else None
      | _ \<Rightarrow> None)"

definition store :: "('d, 'e, 'c) session \<Rightarrow> ('d, 'e, 'c) session_state \<Rightarrow> ('d, 'e, 'c) session_state" where
  "store s st =
     st\<lparr>k_embedding_manager := Some (embedding_manager s),
        k_chat_manager := Some (chat_manager s),
        k_messages := Some (messages s),
        k_documents := Some (documents s),
        k_large_files := large_files s\<rparr>"

subsection \<open>\<^verbatim>\<open>initialize_session_state\<close> (lines 12 to 37)\<close>

definition initialize_session_state ::
  "('d, 'e, 'c, 'r) env \<Rightarrow> ('d, 'e, 'c) session_state \<Rightarrow>
     bool \<times> ('d, 'e, 'c) session_state \<times> 'd event list" where
  "initialize_session_state E st =
     (let st1 = (if k_processor st then st else st\<lparr>k_processor := True\<rparr>);
          st2 = (if k_embedding_manager st1 = None
                 then st1\<lparr>k_embedding_manager := Some (new_embedding_manager E)\<rparr> else st1)
      in if k_chat_manager st2 = None \<and> \<not> config_is_valid E
         then (False, st2, [StError MissingApiKey])
         else
           (let st3 = (if k_chat_manager st2 = None
                       then st2\<lparr>k_chat_manager := Some (new_chat_manager E (google_api_key E))\<rparr>
                       else st2);
                st4 = (if k_messages st3 = None then st3\<lparr>k_messages := Some []\<rparr> else st3);
                st5 = (if k_documents st4 = None then st4\<lparr>k_documents := Some []\<rparr> else st4)
            in (True, st5, [])))"

subsection \<open>\<^verbatim>\<open>process_documents\<close> (lines 39 to 103)\<close>

definition max_size :: nat where
  "max_size = 2 * 1024 * 1024 * 1024"

text \<open>How the loop over \<^verbatim>\<open>files_to_process\<close> (lines 56 to 82) ends: with \<^verbatim>\<open>return False\<close>
  after a size check, with an exception, or with \<^verbatim>\<open>all_documents\<close> complete.\<close>

datatype 'd scan = Rejected | Raised exn | Collected "'d list"

fun scan_files ::
  "('d, 'e, 'c, 'r) env \<Rightarrow> source list \<Rightarrow> 'd list \<Rightarrow> 'd scan \<times> 'd event list" where
  "scan_files E [] all_documents = (Collected all_documents, [])"
| "scan_files E (FilePath p # files) all_documents =
     (case getsize E p of
        Inl e \<Rightarrow> (Raised e, [CallGetsize p])
      | Inr file_size \<Rightarrow>
          if file_size > max_size
          then (Rejected, [CallGetsize p, StError (FileTooLarge (basename E p) file_size)])
          else
            (case open_rb E p of
               Inl e \<Rightarrow> (Raised e, [CallGetsize p, CallOpen p])
             | Inr f \<Rightarrow>
                 (case process_document E f of
                    Inl e \<Rightarrow> (Raised e, [CallGetsize p, CallOpen p, CallProcessDocument (FilePath p)])
                  | Inr docs \<Rightarrow>
                      (let (r, ev) = scan_files E files (all_documents @ docs)
                       in (r, [CallGetsize p, CallOpen p, CallProcessDocument (FilePath p)] @ ev)))))"
| "scan_files E (FileObj f # files) all_documents =
     (if fo_size f > max_size
      then (Rejected, [StError (FileTooLarge (fo_name f) (fo_size f))])
      else
        (case process_document E f of
           Inl e \<Rightarrow> (Raised e, [CallProcessDocument (FileObj f)])
         | Inr docs \<Rightarrow>
             (let (r, ev) = scan_files E files (all_documents @ docs)
              in (r, CallProcessDocument (FileObj f) # ev))))"

text \<open>The body of the \<^verbatim>\<open>try\<close> statement: it returns a truth value or raises.\<close>

datatype 'a ctl = Return 'a | Raise exn

definition process_documents_try ::
  "('d, 'e, 'c, 'r) env \<Rightarrow> source list \<Rightarrow> ('d, 'e, 'c) session \<Rightarrow>
     bool ctl \<times> ('d, 'e, 'c) session \<times> 'd event list" where
  "process_documents_try E files_to_process s =
     (case scan_files E files_to_process [] of
        (Rejected, ev) \<Rightarrow> (Return False, s, ev)
      | (Raised e, ev) \<Rightarrow> (Raise e, s, ev)
      | (Collected all_documents, ev) \<Rightarrow>
          (let s1 = s\<lparr>documents := all_documents\<rparr>;
               (em, success) = create_embeddings E (embedding_manager s1) all_documents;
               s2 = s1\<lparr>embedding_manager := em\<rparr>;
               ev2 = ev @ [CallCreateEmbeddings all_documents]
           in case success of
                Inl e \<Rightarrow> (Raise e, s2, ev2)
              | Inr False \<Rightarrow> (Return False, s2, ev2 @ [StError FailedEmbeddings])
              | Inr True \<Rightarrow>
                  (case retriever E em of
                     None \<Rightarrow> (Raise (no_attribute ''EmbeddingManager'' ''retriever''), s2, ev2)
                   | Some r \<Rightarrow>
                       (let (cm, x) = set_retriever E (chat_manager s2) r;
                            s3 = s2\<lparr>chat_manager := cm\<rparr>
                        in case x of
                             Some e \<Rightarrow> (Raise e, s3, ev2 @ [CallSetRetriever])
                           | None \<Rightarrow>
                               (Return True, s3,
                                ev2 @ [CallSetRetriever,
                                       StSuccess (ProcessedChunks (length all_documents))])))))"

text \<open>The \<^verbatim>\<open>except Exception\<close> handler (line 101) turns an \<^verbatim>\<open>Exception\<close> of the body into an
  error message and \<^verbatim>\<open>False\<close>; any other exception leaves the function.\<close>

definition process_documents ::
  "('d, 'e, 'c, 'r) env \<Rightarrow> source list \<Rightarrow> ('d, 'e, 'c) session \<Rightarrow>
     bool ctl \<times> ('d, 'e, 'c) session \<times> 'd event list" where
  "process_documents E files_to_process s =
     (case process_documents_try E files_to_process s of
        (Return b, s', ev) \<Rightarrow> (Return b, s', ev)
      | (Raise e, s', ev) \<Rightarrow>
          if is_exception e
          then (Return False, s', ev @ [StError (ErrorProcessing (exn_str e))])
          else (Raise e, s', ev))"

subsection \<open>\<^verbatim>\<open>main\<close> (lines 105 to 222)\<close>

text \<open>The widget values of one run. A button's value is what the widget returns if the
  run reaches it; \<^verbatim>\<open>st.chat_input\<close> returns \<^verbatim>\<open>None\<close> or the submitted text.\<close>

record inputs =
  uploaded_files :: "fileobj list"
  file_path :: string
  process_button :: bool
  clear_conversation_button :: bool
  clear_file_chunks_button :: bool
  chat_input :: "string option"

text \<open>How a run ends: the script runs to its end (or returns), \<^verbatim>\<open>st.rerun()\<close> stops it and
  schedules the next run, or an exception leaves \<^verbatim>\<open>main\<close>.\<close>

datatype outcome = Finished | Rerun | Crashed exn

text \<open>\<^verbatim>\<open>file_path.lower().endswith('.pdf')\<close>, on ASCII letters.\<close>

definition lower_char :: "char \<Rightarrow> char" where
  "lower_char c =
     (let n = (of_char c :: nat) in if 65 \<le> n \<and> n \<le> 90 then char_of (n + 32) else c)"

definition lower :: "string \<Rightarrow> string" where
  "lower p = map lower_char p"

definition endswith :: "string \<Rightarrow> string \<Rightarrow> bool" where
  "endswith p suffix = (length suffix \<le> length p \<and> drop (length p - length suffix) p = suffix)"

text \<open>The entries of \<^verbatim>\<open>st.session_state.large_files\<close>; line 155 creates the list, empty,
  when the key is absent.\<close>

definition paths :: "('d, 'e, 'c) session \<Rightarrow> string list" where
  "paths s = (case large_files s of None \<Rightarrow> [] | Some l \<Rightarrow> l)"

text \<open>The file path input (lines 141 to 159). The result is the session state, the trace
  and the exception that leaves the block, if any: the handler at line 158 catches an
  \<^verbatim>\<open>Exception\<close> only.\<close>

definition enter_file_path ::
  "('d, 'e, 'c, 'r) env \<Rightarrow> string \<Rightarrow> ('d, 'e, 'c) session \<Rightarrow>
     ('d, 'e, 'c) session \<times> 'd event list \<times> exn option" where
  "enter_file_path E p s =
     (if p = [] then (s, [], None)
      else if \<not> endswith (lower p) ''.pdf'' then (s, [StError InvalidPdfPath], None)
      else if \<not> path_exists E p then (s, [StError FileNotFound], None)
      else
        (case getsize E p of
           Inl e \<Rightarrow>
             if is_exception e
             then (s, [CallGetsize p, StError (ErrorReading (exn_str e))], None)
             else (s, [CallGetsize p], Some e)
         | Inr file_size \<Rightarrow>
             if file_size > 2 * 1024 * 1024 * 1024
             then (s, [CallGetsize p, StError (PathTooLarge file_size)], None)
             else
               (s\<lparr>large_files := Some (paths s @ [p])\<rparr>,
                [CallGetsize p, StSuccess (FileFound (basename E p) file_size)], None)))"

text \<open>\<^verbatim>\<open>all_files_to_process\<close> (lines 162 to 166).\<close>

definition all_files_to_process :: "inputs \<Rightarrow> ('d, 'e, 'c) session \<Rightarrow> source list" where
  "all_files_to_process inp s =
     map FileObj (uploaded_files inp) @ map FilePath (paths s)"

text \<open>The two clear buttons (lines 176 to 188), shown when there are documents. The result
  is \<open>None\<close> when the run goes on.\<close>

definition clear_conversation ::
  "('d, 'e, 'c, 'r) env \<Rightarrow> ('d, 'e, 'c) session \<Rightarrow>
     outcome \<times> ('d, 'e, 'c) session \<times> 'd event list" where
  "clear_conversation E s =
     (let s1 = s\<lparr>messages := []\<rparr>;
          (cm, x) = reset_conversation E (chat_manager s1);
          s2 = s1\<lparr>chat_manager := cm\<rparr>
      in case x of
           Some e \<Rightarrow> (Crashed e, s2, [CallResetConversation])
         | None \<Rightarrow> (Rerun, s2, [CallResetConversation]))"

definition clear_file_chunks ::
  "('d, 'e, 'c, 'r) env \<Rightarrow> ('d, 'e, 'c) session \<Rightarrow>
     outcome \<times> ('d, 'e, 'c) session \<times> 'd event list" where
  "clear_file_chunks E s =
     (let s1 = s\<lparr>documents := []\<rparr>;
          s2 = (if large_files s1 = None then s1 else s1\<lparr>large_files := Some []\<rparr>)
      in if has_clear_embeddings E
         then
           (let (em, x) = clear_embeddings E (embedding_manager s2);
                s3 = s2\<lparr>embedding_manager := em\<rparr>
            in case x of
                 Some e \<Rightarrow> (Crashed e, s3, [CallClearEmbeddings])
               | None \<Rightarrow> (Rerun, s3, [CallClearEmbeddings]))
         else (Rerun, s2, []))"

text \<open>The process button (lines 168 to 171): the session state and the trace after it, and
  the exception that left \<^verbatim>\<open>process_documents\<close>, if any. The truth value
  \<^verbatim>\<open>process_documents\<close> returns is not used.\<close>

definition press_process ::
  "('d, 'e, 'c, 'r) env \<Rightarrow> inputs \<Rightarrow> ('d, 'e, 'c) session \<Rightarrow>
     ('d, 'e, 'c) session \<times> 'd event list \<times> exn option" where
  "press_process E inp s =
     (let files = all_files_to_process inp s
      in if files \<noteq> [] \<and> process_button inp
         then
           (case process_documents E files s of
              (Return b, s', ev) \<Rightarrow> (s', ev, None)
            | (Raise e, s', ev) \<Rightarrow> (s', ev, Some e))
         else (s, [], None))"

text \<open>The sidebar (lines 117 to 188).\<close>

definition sidebar ::
  "('d, 'e, 'c, 'r) env \<Rightarrow> inputs \<Rightarrow> ('d, 'e, 'c) session \<Rightarrow>
     outcome option \<times> ('d, 'e, 'c) session \<times> 'd event list" where
  "sidebar E inp s =
     (let (s1, ev1, x1) = enter_file_path E (file_path inp) s
      in case x1 of
           Some e \<Rightarrow> (Some (Crashed e), s1, ev1)
         | None \<Rightarrow>
             (let (s2, ev2, x2) = press_process E inp s1
              in case x2 of
                   Some e \<Rightarrow> (Some (Crashed e), s2, ev1 @ ev2)
                 | None \<Rightarrow>
                     if documents s2 = [] then (None, s2, ev1 @ ev2)
                     else
                       (let ev3 = ev1 @ ev2 @
                                  [StSuccess (ChunksInMemory (length (documents s2)))]
                        in if clear_conversation_button inp
                           then (let (out, s3, ev4) = clear_conversation E s2
                                 in (Some out, s3, ev3 @ ev4))
                           else if clear_file_chunks_button inp
                           then (let (out, s3, ev4) = clear_file_chunks E s2
                                 in (Some out, s3, ev3 @ ev4))
                           else (None, s2, ev3))))"

text \<open>\<^verbatim>\<open>hasattr(embedding_manager, 'retriever') and embedding_manager.retriever\<close>
  (line 213).\<close>

definition has_retriever :: "('d, 'e, 'c, 'r) env \<Rightarrow> 'e \<Rightarrow> bool" where
  "has_retriever E em = (case retriever E em of Some (Some r) \<Rightarrow> True | _ \<Rightarrow> False)"

text \<open>The chat input (lines 196 to 222).\<close>

definition no_documents_response :: string where
  "no_documents_response = ''Please upload and process PDF documents first!''"

definition chat ::
  "('d, 'e, 'c, 'r) env \<Rightarrow> string option \<Rightarrow> ('d, 'e, 'c) session \<Rightarrow>
     outcome \<times> ('d, 'e, 'c) session \<times> 'd event list" where
  "chat E q s =
     (case q of
        None \<Rightarrow> (Finished, s, [])
      | Some query \<Rightarrow>
          if query = [] then (Finished, s, [])
          else
            (let s1 = s\<lparr>messages := messages s @ [\<lparr>role = ''user'', content = query\<rparr>]\<rparr>;
                 ev1 = [StWrite ''user'' query]
             in if documents s1 = []
                then (Finished,
                      s1\<lparr>messages := messages s1 @
                            [\<lparr>role = ''assistant'', content = no_documents_response\<rparr>]\<rparr>,
                      ev1 @ [StWrite ''assistant'' no_documents_response])
                else
                  (let (relevant_docs, ev2) =
                         (if has_retriever E (embedding_manager s1) then (Inr [], [])
                          else (search E (embedding_manager s1) query, [CallSearch query]))
                   in case relevant_docs of
                        Inl e \<Rightarrow> (Crashed e, s1, ev1 @ ev2)
                      | Inr docs \<Rightarrow>
                          (let (cm, response) = generate_response E (chat_manager s1) query docs;
                               s2 = s1\<lparr>chat_manager := cm\<rparr>;
                               ev3 = ev1 @ ev2 @ [CallGenerateResponse query docs]
                           in case response of
                                Inl e \<Rightarrow> (Crashed e, s2, ev3)
                              | Inr text \<Rightarrow>
                                  (Finished,
                                   s2\<lparr>messages := messages s2 @
                                         [\<lparr>role = ''assistant'', content = text\<rparr>]\<rparr>,
                                   ev3 @ [StWrite ''assistant'' text])))))"

text \<open>The part of \<^verbatim>\<open>main\<close> after the initialisation: the sidebar, the chat history
  (lines 191 to 193) and the chat input.\<close>

definition app ::
  "('d, 'e, 'c, 'r) env \<Rightarrow> inputs \<Rightarrow> ('d, 'e, 'c) session \<Rightarrow>
     outcome \<times> ('d, 'e, 'c) session \<times> 'd event list" where
  "app E inp s =
     (case sidebar E inp s of
        (Some out, s1, ev1) \<Rightarrow> (out, s1, ev1)
      | (None, s1, ev1) \<Rightarrow>
          (let ev2 = map (\<lambda>m. StWrite (role m) (content m)) (messages s1);
               (out, s2, ev3) = chat E (chat_input inp) s1
           in (out, s2, ev1 @ ev2 @ ev3)))"

text \<open>\<^verbatim>\<open>main\<close>. After a successful initialisation every key the script reads is present
  (lemma \<open>initialize_view\<close> below); reading an absent key of \<^verbatim>\<open>st.session_state\<close> raises
  \<^verbatim>\<open>AttributeError\<close>.\<close>

definition main ::
  "('d, 'e, 'c, 'r) env \<Rightarrow> inputs \<Rightarrow> ('d, 'e, 'c) session_state \<Rightarrow>
     outcome \<times> ('d, 'e, 'c) session_state \<times> 'd event list" where
  "main E inp st =
     (case initialize_session_state E st of
        (False, st1, ev) \<Rightarrow> (Finished, st1, ev)
      | (True, st1, ev) \<Rightarrow>
          (case view st1 of
             None \<Rightarrow> (Crashed (Exn ''AttributeError'' ''st.session_state has no such key''), st1, ev)
           | Some s \<Rightarrow>
               (let (out, s', ev') = app E inp s in (out, store s' st1, ev @ ev'))))"

subsection \<open>The vector index of the specification\<close>

text \<open>
  Modelled from the spec: \<^verbatim>\<open>VectorIndex.insert\<close> of the index behind \<^verbatim>\<open>EmbeddingManager\<close>,
  whose source \<^verbatim>\<open>src/embedding.py\<close> is not available. The index holds one vector per
  inserted chunk, in insertion order. \<^verbatim>\<open>insert\<close> requires as many vectors as chunks,
  failing with \<^verbatim>\<open>DimensionMismatchError\<close> otherwise, and appends to the existing index (it
  does not replace).
\<close>

definition index_insert :: "'v list \<Rightarrow> 'd list \<Rightarrow> 'v list \<Rightarrow> exn + 'v list" where
  "index_insert idx chunks vectors =
     (if length chunks \<noteq> length vectors then Inl (Exn ''DimensionMismatchError'' [])
      else Inr (idx @ vectors))"

text \<open>
  Modelled from the spec: \<^verbatim>\<open>VectorIndex.clear\<close>, the \<^verbatim>\<open>clear_embeddings\<close> of the absent
  \<^verbatim>\<open>EmbeddingManager\<close>. It removes all vectors.
\<close>

definition index_clear :: "'v list \<Rightarrow> 'v list \<times> exn option" where
  "index_clear idx = ([], None)"

text \<open>
  Modelled from the spec: \<^verbatim>\<open>create_embeddings\<close> of the absent \<^verbatim>\<open>EmbeddingManager\<close>, the
  data flow chunk records, Embedder (batch), \<^verbatim>\<open>VectorIndex.insert\<close>. The Embedder boundary
  \<open>embed_texts\<close> returns a vector per text or fails with \<^verbatim>\<open>EmbeddingUnavailableError\<close>; a
  failure of the embedding computation results in zero inserts.
\<close>

definition spec_create_embeddings ::
  "('d list \<Rightarrow> exn + 'v list) \<Rightarrow> 'v list \<Rightarrow> 'd list \<Rightarrow> 'v list \<times> (exn + bool)" where
  "spec_create_embeddings embed_texts idx docs =
     (case embed_texts docs of
        Inl e \<Rightarrow> (idx, Inl e)
      | Inr vectors \<Rightarrow>
          (case index_insert idx docs vectors of
             Inl e \<Rightarrow> (idx, Inl e)
           | Inr idx' \<Rightarrow> (idx', Inr True)))"

subsection \<open>A concrete environment\<close>

text \<open>
  An environment on which the theorems below are instantiated. A chunk is a string, the
  embedding manager is the index of the specification with a vector per chunk (here the
  chunk's length), the chat manager counts the answers it gave. Three paths exist; a file
  yields one chunk, its name; \<^verbatim>\<open>broken.pdf\<close> cannot be extracted, the extraction of
  \<^verbatim>\<open>stop.pdf\<close> is interrupted from the keyboard, the chunk of \<^verbatim>\<open>odd.pdf\<close> cannot be
  embedded and the query \<^verbatim>\<open>fail\<close> cannot be answered. The retriever of an index is the
  number of its vectors, \<^verbatim>\<open>None\<close> while the index is empty.
\<close>

definition GiB :: nat where
  "GiB = 1024 * 1024 * 1024"

definition sample_getsize :: "string \<Rightarrow> exn + nat" where
  "sample_getsize p =
     (if p = ''a.pdf'' then Inr 10
      else if p = ''two.pdf'' then Inr (2 * GiB)
      else if p = ''big.pdf'' then Inr (3 * GiB)
      else Inl (Exn ''FileNotFoundError'' p))"

definition sample_embed :: "string list \<Rightarrow> exn + nat list" where
  "sample_embed docs =
     (if ''odd.pdf'' \<in> set docs then Inl (Exn ''EmbeddingUnavailableError'' ''odd.pdf'')
      else Inr (map length docs))"

definition sample_env :: "(string, nat list, nat, nat) env" where
  "sample_env =
     \<lparr>config_is_valid = True,
      google_api_key = ''key'',
      path_exists = (\<lambda>p. p = ''a.pdf'' \<or> p = ''two.pdf'' \<or> p = ''big.pdf''),
      getsize = sample_getsize,
      basename = (\<lambda>p. p),
      open_rb = (\<lambda>p. case sample_getsize p of
                        Inl e \<Rightarrow> Inl e | Inr n \<Rightarrow> Inr \<lparr>fo_name = p, fo_size = n\<rparr>),
      process_document = (\<lambda>f. if fo_name f = ''broken.pdf''
                               then Inl (Exn ''UnsupportedFormatError'' ''broken.pdf'')
                               else if fo_name f = ''stop.pdf''
                               then Inl (BaseExn ''KeyboardInterrupt'' [])
                               else Inr [fo_name f]),
      new_embedding_manager = [],
      create_embeddings = spec_create_embeddings sample_embed,
      has_clear_embeddings = True,
      clear_embeddings = index_clear,
      retriever = (\<lambda>idx. if idx = [] then Some None else Some (Some (length idx))),
      search = (\<lambda>idx q. Inr []),
      new_chat_manager = (\<lambda>key. 0),
      set_retriever = (\<lambda>c r. (c, None)),
      reset_conversation = (\<lambda>c. (0, None)),
      generate_response = (\<lambda>c q docs. if q = ''fail''
                                        then (c, Inl (Exn ''GenerationError'' ''no completion''))
                                        else (Suc c, Inr (''answer: '' @ q)))\<rparr>"

definition no_key_env :: "(string, nat list, nat, nat) env" where
  "no_key_env = sample_env\<lparr>config_is_valid := False, google_api_key := []\<rparr>"

text \<open>An embedding manager without the attribute \<^verbatim>\<open>retriever\<close>, one whose chat manager
  refuses the retriever, and one without \<^verbatim>\<open>clear_embeddings\<close>.\<close>

definition no_retriever_env :: "(string, nat list, nat, nat) env" where
  "no_retriever_env = sample_env\<lparr>retriever := (\<lambda>idx. None)\<rparr>"

definition refusing_env :: "(string, nat list, nat, nat) env" where
  "refusing_env =
     sample_env\<lparr>set_retriever := (\<lambda>c r. (Suc c, Some (Exn ''TypeError'' ''retriever'')))\<rparr>"

definition no_clear_env :: "(string, nat list, nat, nat) env" where
  "no_clear_env = sample_env\<lparr>has_clear_embeddings := False\<rparr>"

definition sample_session :: "(string, nat list, nat) session" where
  "sample_session =
     \<lparr>embedding_manager = [7], chat_manager = 0,
      messages = [\<lparr>role = ''user'', content = ''hello''\<rparr>],
      documents = [''old.pdf''], large_files = Some [''a.pdf'']\<rparr>"

definition empty_session :: "(string, nat list, nat) session" where
  "empty_session =
     \<lparr>embedding_manager = [], chat_manager = 0, messages = [], documents = [],
      large_files = None\<rparr>"

definition fresh_state :: "(string, nat list, nat) session_state" where
  "fresh_state =
     \<lparr>k_processor = False, k_embedding_manager = None, k_chat_manager = None,
      k_messages = None, k_documents = None, k_large_files = None\<rparr>"

definition upload :: "string \<Rightarrow> nat \<Rightarrow> source" where
  "upload name n = FileObj \<lparr>fo_name = name, fo_size = n\<rparr>"

subsection \<open>Notions used to state the properties\<close>

text \<open>The byte size the size check of \<^verbatim>\<open>process_documents\<close> compares with the cap: for a path
  what \<^verbatim>\<open>os.path.getsize\<close> returns (line 59), for a file object what \<^verbatim>\<open>file.tell()\<close> returns
  at the end of the file (lines 72 and 73).\<close>

definition reported_size :: "('d, 'e, 'c, 'r) env \<Rightarrow> source \<Rightarrow> exn + nat" where
  "reported_size E src = (case src of FilePath p \<Rightarrow> getsize E p | FileObj f \<Rightarrow> Inr (fo_size f))"

text \<open>The name the size check prints: \<^verbatim>\<open>os.path.basename(file)\<close> (line 60) or \<^verbatim>\<open>file.name\<close>
  (line 77).\<close>

definition source_name :: "('d, 'e, 'c, 'r) env \<Rightarrow> source \<Rightarrow> string" where
  "source_name E src = (case src of FilePath p \<Rightarrow> basename E p | FileObj f \<Rightarrow> fo_name f)"

text \<open>The exception the collaborators raise for one element of the batch, if any: that of
  \<^verbatim>\<open>os.path.getsize\<close> or, when the size is within the cap, that of \<^verbatim>\<open>open\<close> or of
  \<^verbatim>\<open>process_document\<close>.\<close>

fun raised_by :: "('d, 'e, 'c, 'r) env \<Rightarrow> source \<Rightarrow> exn option" where
  "raised_by E (FilePath p) =
     (case getsize E p of
        Inl e \<Rightarrow> Some e
      | Inr n \<Rightarrow>
          if n > max_size then None
          else
            (case open_rb E p of
               Inl e \<Rightarrow> Some e
             | Inr f \<Rightarrow> (case process_document E f of Inl e \<Rightarrow> Some e | Inr docs \<Rightarrow> None)))"
| "raised_by E (FileObj f) =
     (if fo_size f > max_size then None
      else (case process_document E f of Inl e \<Rightarrow> Some e | Inr docs \<Rightarrow> None))"

text \<open>An element of the batch that is extracted: its size is reported and within the cap,
  and nothing raises for it.\<close>

definition extracted :: "('d, 'e, 'c, 'r) env \<Rightarrow> source \<Rightarrow> bool" where
  "extracted E src =
     (raised_by E src = None \<and>
      (case reported_size E src of Inl e \<Rightarrow> False | Inr n \<Rightarrow> n \<le> max_size))"

text \<open>The chunks \<^verbatim>\<open>process_document\<close> extracts from one element of the batch (lines 67 to 69
  and line 81); none when the file cannot be opened or extracted.\<close>

fun chunks_of :: "('d, 'e, 'c, 'r) env \<Rightarrow> source \<Rightarrow> 'd list" where
  "chunks_of E (FilePath p) =
     (case open_rb E p of
        Inl e \<Rightarrow> []
      | Inr f \<Rightarrow> (case process_document E f of Inl e \<Rightarrow> [] | Inr docs \<Rightarrow> docs))"
| "chunks_of E (FileObj f) =
     (case process_document E f of Inl e \<Rightarrow> [] | Inr docs \<Rightarrow> docs)"

section \<open>Properties\<close>

subsection \<open>Auxiliary facts\<close>

lemmas sample_defs = sample_env_def sample_session_def empty_session_def upload_def
  sample_getsize_def sample_embed_def GiB_def max_size_def spec_create_embeddings_def
  index_insert_def index_clear_def

lemma extracted_FilePath:
  "extracted E (FilePath p) \<Longrightarrow>
   \<exists>n f docs. getsize E p = Inr n \<and> n \<le> max_size \<and> open_rb E p = Inr f \<and>
     process_document E f = Inr docs \<and> chunks_of E (FilePath p) = docs"
  by (auto simp: extracted_def reported_size_def split: sum.splits if_splits)

lemma extracted_FileObj:
  "extracted E (FileObj f) \<Longrightarrow>
   \<exists>docs. fo_size f \<le> max_size \<and> process_document E f = Inr docs \<and>
     chunks_of E (FileObj f) = docs"
  by (auto simp: extracted_def reported_size_def split: sum.splits if_splits)

lemma scan_files_oversize:
  "src \<in> set files \<Longrightarrow> reported_size E src = Inr n \<Longrightarrow> max_size < n \<Longrightarrow>
   scan_files E files acc = (r, ev) \<Longrightarrow>
   (\<forall>docs. r \<noteq> Collected docs) \<and> CallProcessDocument src \<notin> set ev"
proof (induction files arbitrary: acc r ev)
  case Nil
  then show ?case by simp
next
  case (Cons a files)
  show ?case
  proof (cases "src = a")
    case True
    with Cons.prems show ?thesis
      by (cases a) (auto simp: reported_size_def)
  next
    case False
    with Cons.prems have "src \<in> set files" by simp
    from Cons.IH [OF this Cons.prems(2,3)]
    have ih: "\<And>acc r ev. scan_files E files acc = (r, ev) \<Longrightarrow>
                (\<forall>docs. r \<noteq> Collected docs) \<and> CallProcessDocument src \<notin> set ev" .
    show ?thesis
    proof (cases a)
      case (FilePath p)
      with False ih Cons.prems(4) show ?thesis
        by (fastforce split: sum.splits prod.splits if_splits)
    next
      case (FileObj f)
      with False ih Cons.prems(4) show ?thesis
        by (fastforce split: sum.splits prod.splits if_splits)
    qed
  qed
qed

lemma scan_files_raising:
  "x \<in> set files \<Longrightarrow> raised_by E x = Some e \<Longrightarrow> scan_files E files acc = (r, ev) \<Longrightarrow>
   r \<noteq> Collected docs"
proof (induction files arbitrary: acc r ev)
  case Nil
  then show ?case by simp
next
  case (Cons a files)
  show ?case
  proof (cases "x = a")
    case True
    with Cons.prems show ?thesis
      by (cases a) (auto split: sum.splits prod.splits if_splits)
  next
    case False
    with Cons.prems have "x \<in> set files" by simp
    from Cons.IH [OF this Cons.prems(2)]
    have ih: "\<And>acc r ev. scan_files E files acc = (r, ev) \<Longrightarrow> r \<noteq> Collected docs" .
    show ?thesis
    proof (cases a)
      case (FilePath p)
      with ih Cons.prems(3) show ?thesis
        by (fastforce split: sum.splits prod.splits if_splits)
    next
      case (FileObj f)
      with ih Cons.prems(3) show ?thesis
        by (fastforce split: sum.splits prod.splits if_splits)
    qed
  qed
qed

lemma scan_files_raised:
  "scan_files E files acc = (Raised e, ev) \<Longrightarrow> \<exists>y\<in>set files. raised_by E y = Some e"
proof (induction files arbitrary: acc ev)
  case Nil
  then show ?case by simp
next
  case (Cons a files)
  show ?case
  proof (cases a)
    case (FilePath p)
    with Cons show ?thesis
      by (fastforce split: sum.splits prod.splits if_splits)
  next
    case (FileObj f)
    with Cons show ?thesis
      by (fastforce split: sum.splits prod.splits if_splits)
  qed
qed

lemma scan_files_prefix:
  "list_all (extracted E) pre \<Longrightarrow> scan_files E (pre @ rest) acc = (r, ev) \<Longrightarrow>
   \<exists>ev0 ev1. ev = ev0 @ ev1 \<and>
     scan_files E rest (acc @ concat (map (chunks_of E) pre)) = (r, ev1) \<and>
     (\<forall>y\<in>set pre. CallProcessDocument y \<in> set ev0)"
proof (induction pre arbitrary: acc r ev)
  case Nil
  then show ?case by simp
next
  case (Cons a pre)
  from Cons.prems(1) have ea: "extracted E a" and ep: "list_all (extracted E) pre"
    by simp_all
  obtain docs evh where docs: "chunks_of E a = docs"
    and step: "\<And>r' ev'. scan_files E (pre @ rest) (acc @ docs) = (r', ev') \<Longrightarrow>
                 scan_files E ((a # pre) @ rest) acc = (r', evh @ ev')"
    and call: "CallProcessDocument a \<in> set evh"
  proof (cases a)
    case (FilePath p)
    from extracted_FilePath [OF ea [unfolded FilePath]]
    obtain n f d where "getsize E p = Inr n" "n \<le> max_size" "open_rb E p = Inr f"
      "process_document E f = Inr d" "chunks_of E (FilePath p) = d"
      by blast
    with FilePath that [of d "[CallGetsize p, CallOpen p, CallProcessDocument (FilePath p)]"]
    show ?thesis by simp
  next
    case (FileObj f)
    from extracted_FileObj [OF ea [unfolded FileObj]]
    obtain d where "fo_size f \<le> max_size" "process_document E f = Inr d"
      "chunks_of E (FileObj f) = d"
      by blast
    with FileObj that [of d "[CallProcessDocument (FileObj f)]"]
    show ?thesis by simp
  qed
  obtain r' ev' where sc: "scan_files E (pre @ rest) (acc @ docs) = (r', ev')"
    by (cases "scan_files E (pre @ rest) (acc @ docs)")
  from step [OF sc] Cons.prems(2) have r: "r = r'" and ev: "ev = evh @ ev'"
    by simp_all
  from Cons.IH [OF ep sc] obtain ev0 ev1 where
    "ev' = ev0 @ ev1"
    "scan_files E rest ((acc @ docs) @ concat (map (chunks_of E) pre)) = (r', ev1)"
    "\<forall>y\<in>set pre. CallProcessDocument y \<in> set ev0"
    by blast
  with r ev docs call show ?case
    by (intro exI [of _ "evh @ ev0"] exI [of _ ev1]) auto
qed

lemma scan_files_extracted:
  "list_all (extracted E) files \<Longrightarrow>
   \<exists>ev. scan_files E files acc = (Collected (acc @ concat (map (chunks_of E) files)), ev)"
proof -
  assume a: "list_all (extracted E) files"
  obtain r ev where sc: "scan_files E (files @ []) acc = (r, ev)"
    by (cases "scan_files E (files @ []) acc")
  from scan_files_prefix [OF a sc] sc show ?thesis by auto
qed

lemma scan_files_head_oversize:
  "reported_size E src = Inr n \<Longrightarrow> max_size < n \<Longrightarrow>
   \<exists>ev. scan_files E (src # post) acc =
          (Rejected, ev @ [StError (FileTooLarge (source_name E src) n)])"
  by (cases src) (auto simp: reported_size_def source_name_def)

lemma scan_files_head_raising:
  "raised_by E x = Some e \<Longrightarrow> \<exists>ev. scan_files E (x # post) acc = (Raised e, ev)"
  by (cases x) (auto split: sum.splits if_splits)

lemma scan_files_collected:
  "scan_files E files acc = (Collected docs, ev) \<Longrightarrow>
   docs = acc @ concat (map (chunks_of E) files)"
proof (induction files arbitrary: acc ev)
  case Nil
  then show ?case by simp
next
  case (Cons a files)
  show ?case
  proof (cases a)
    case (FilePath p)
    with Cons show ?thesis
      by (fastforce split: sum.splits prod.splits if_splits)
  next
    case (FileObj f)
    with Cons show ?thesis
      by (fastforce split: sum.splits prod.splits if_splits)
  qed
qed

lemma process_documents_cases:
  "scan_files E files [] = (r, ev) \<Longrightarrow>
   process_documents E files s =
     (case r of
        Rejected \<Rightarrow> (Return False, s, ev)
      | Raised e \<Rightarrow>
          if is_exception e
          then (Return False, s, ev @ [StError (ErrorProcessing (exn_str e))])
          else (Raise e, s, ev)
      | Collected docs \<Rightarrow>
          (case create_embeddings E (embedding_manager s) docs of
             (em, Inl e) \<Rightarrow>
               if is_exception e
               then (Return False, s\<lparr>documents := docs, embedding_manager := em\<rparr>,
                     ev @ [CallCreateEmbeddings docs, StError (ErrorProcessing (exn_str e))])
               else (Raise e, s\<lparr>documents := docs, embedding_manager := em\<rparr>,
                     ev @ [CallCreateEmbeddings docs])
           | (em, Inr False) \<Rightarrow>
               (Return False, s\<lparr>documents := docs, embedding_manager := em\<rparr>,
                ev @ [CallCreateEmbeddings docs, StError FailedEmbeddings])
           | (em, Inr True) \<Rightarrow>
               (case retriever E em of
                  None \<Rightarrow>
                    (Return False, s\<lparr>documents := docs, embedding_manager := em\<rparr>,
                     ev @ [CallCreateEmbeddings docs,
                           StError (ErrorProcessing
                             (exn_str (no_attribute ''EmbeddingManager'' ''retriever'')))])
                | Some v \<Rightarrow>
                    (case set_retriever E (chat_manager s) v of
                       (cm, Some e) \<Rightarrow>
                         if is_exception e
                         then (Return False,
                               s\<lparr>documents := docs, embedding_manager := em, chat_manager := cm\<rparr>,
                               ev @ [CallCreateEmbeddings docs, CallSetRetriever,
                                     StError (ErrorProcessing (exn_str e))])
                         else (Raise e,
                               s\<lparr>documents := docs, embedding_manager := em, chat_manager := cm\<rparr>,
                               ev @ [CallCreateEmbeddings docs, CallSetRetriever])
                     | (cm, None) \<Rightarrow>
                         (Return True,
                          s\<lparr>documents := docs, embedding_manager := em, chat_manager := cm\<rparr>,
                          ev @ [CallCreateEmbeddings docs, CallSetRetriever,
                                StSuccess (ProcessedChunks (length docs))])))))"
  by (simp add: process_documents_def process_documents_try_def Let_def no_attribute_def
           split: scan.splits prod.splits sum.splits bool.splits option.splits)

lemma process_documents_not_collected:
  assumes sc: "scan_files E files [] = (r, ev)" and nc: "\<forall>docs. r \<noteq> Collected docs"
  shows "fst (snd (process_documents E files s)) = s"
    and "fst (process_documents E files s) = Return False \<or>
         (\<exists>e. \<not> is_exception e \<and> (\<exists>y\<in>set files. raised_by E y = Some e) \<and>
              fst (process_documents E files s) = Raise e)"
    and "CallProcessDocument src \<notin> set ev \<Longrightarrow>
         CallProcessDocument src \<notin> set (snd (snd (process_documents E files s)))"
proof -
  show "fst (snd (process_documents E files s)) = s"
    using nc by (cases r) (simp_all add: process_documents_cases [OF sc])
  show "fst (process_documents E files s) = Return False \<or>
         (\<exists>e. \<not> is_exception e \<and> (\<exists>y\<in>set files. raised_by E y = Some e) \<and>
              fst (process_documents E files s) = Raise e)"
  proof (cases r)
    case Rejected
    then show ?thesis by (simp add: process_documents_cases [OF sc])
  next
    case (Raised e)
    with scan_files_raised [of E files "[]" e ev] sc
    have "\<exists>y\<in>set files. raised_by E y = Some e" by simp
    with Raised show ?thesis
      by (cases "is_exception e") (auto simp: process_documents_cases [OF sc])
  next
    case (Collected docs)
    with nc show ?thesis by simp
  qed
  show "CallProcessDocument src \<notin> set (snd (snd (process_documents E files s)))"
    if "CallProcessDocument src \<notin> set ev"
    using nc that by (cases r) (simp_all add: process_documents_cases [OF sc])
qed

lemma enter_file_path_paths:
  "paths (fst (enter_file_path E p s)) = paths s \<or>
   paths (fst (enter_file_path E p s)) = paths s @ [p]"
  by (simp add: enter_file_path_def paths_def split: sum.splits)

lemma process_documents_large_files:
  "large_files (fst (snd (process_documents E files s))) = large_files s"
proof -
  obtain r ev where sc: "scan_files E files [] = (r, ev)"
    by (cases "scan_files E files []")
  show ?thesis
    by (simp add: process_documents_cases [OF sc]
             split: scan.splits prod.splits sum.splits bool.splits option.splits)
qed

lemma press_process_paths:
  "paths (fst (press_process E inp s)) = paths s"
proof -
  obtain r s' ev where pd: "process_documents E (all_files_to_process inp s) s = (r, s', ev)"
    by (cases "process_documents E (all_files_to_process inp s) s")
  with process_documents_large_files [of E "all_files_to_process inp s" s]
  have "paths s' = paths s" by (simp add: paths_def)
  then show ?thesis
    by (cases r) (simp_all add: press_process_def Let_def pd)
qed

lemma clear_conversation_large_files:
  "large_files (fst (snd (clear_conversation E s))) = large_files s"
  by (simp add: clear_conversation_def Let_def split: prod.splits option.splits)

lemma chat_large_files:
  "large_files (fst (snd (chat E q s))) = large_files s"
  by (simp add: chat_def Let_def split: prod.splits option.splits sum.splits)

lemma clear_file_chunks_paths:
  "paths (fst (snd (clear_file_chunks E s))) = []"
  by (simp add: clear_file_chunks_def paths_def Let_def split: prod.splits option.splits)

lemma sidebar_paths:
  "paths (fst (snd (sidebar E inp s))) = paths (fst (enter_file_path E (file_path inp) s)) \<or>
   (clear_file_chunks_button inp \<and> paths (fst (snd (sidebar E inp s))) = [])"
proof -
  obtain s1 ev1 x1 where e: "enter_file_path E (file_path inp) s = (s1, ev1, x1)"
    by (cases "enter_file_path E (file_path inp) s")
  obtain s2 ev2 x2 where p: "press_process E inp s1 = (s2, ev2, x2)"
    by (cases "press_process E inp s1")
  have l2: "paths s2 = paths s1"
    using press_process_paths [of E inp s1] p by simp
  obtain out s3 ev4 where c: "clear_conversation E s2 = (out, s3, ev4)"
    by (cases "clear_conversation E s2")
  have l3: "paths s3 = paths s2"
    using clear_conversation_large_files [of E s2] c by (simp add: paths_def)
  obtain out' s4 ev5 where d: "clear_file_chunks E s2 = (out', s4, ev5)"
    by (cases "clear_file_chunks E s2")
  have l4: "paths s4 = []"
    using clear_file_chunks_paths [of E s2] d by simp
  show ?thesis
    using l2 l3 l4 by (cases x1; cases x2) (simp_all add: sidebar_def Let_def e p c d)
qed

lemma app_paths:
  "paths (fst (snd (app E inp s))) = paths (fst (enter_file_path E (file_path inp) s)) \<or>
   (clear_file_chunks_button inp \<and> paths (fst (snd (app E inp s))) = [])"
proof -
  obtain o1 s1 ev1 where sb: "sidebar E inp s = (o1, s1, ev1)"
    by (cases "sidebar E inp s")
  have l1: "paths s1 = paths (fst (enter_file_path E (file_path inp) s)) \<or>
            (clear_file_chunks_button inp \<and> paths s1 = [])"
    using sidebar_paths [of E inp s] sb by simp
  obtain o2 s2 ev2 where ch: "chat E (chat_input inp) s1 = (o2, s2, ev2)"
    by (cases "chat E (chat_input inp) s1")
  have l2: "paths s2 = paths s1"
    using chat_large_files [of E "chat_input inp" s1] ch by (simp add: paths_def)
  show ?thesis
    using l1 l2 by (cases o1) (auto simp: app_def Let_def sb ch)
qed

lemma initialize_view:
  "initialize_session_state E st = (True, st', ev) \<Longrightarrow> view st' \<noteq> None"
  by (auto simp: initialize_session_state_def view_def Let_def split: if_splits option.splits)


subsection \<open>The size cap\<close>

subsection \<open>The size cap\<close>

text \<open>
  Claim C1, as the code has it. For a batch that contains a source whose reported size
  exceeds the cap of 2 GiB, \<^verbatim>\<open>process_documents\<close> leaves the session state as it was and
  never calls \<^verbatim>\<open>process_document\<close> for that source; it returns \<^verbatim>\<open>False\<close>, unless a file
  of the batch raised an exception that is no \<^verbatim>\<open>Exception\<close>, which then leaves the
  function. When every file before the oversized one is extracted, the function returns
  \<^verbatim>\<open>False\<close>, the last thing it shows is the too-large message with the name and the
  observed size of that very file, and each of the files before it has been handed to
  \<^verbatim>\<open>process_document\<close> by then. The rejection itself raises nothing.
\<close>

theorem oversize_rejected:
  "(src \<in> set files \<and> reported_size E src = Inr n \<and> max_size < n \<longrightarrow>
      fst (snd (process_documents E files s)) = s \<and>
      CallProcessDocument src \<notin> set (snd (snd (process_documents E files s))) \<and>
      (fst (process_documents E files s) = Return False \<or>
       (\<exists>e. \<not> is_exception e \<and> (\<exists>y\<in>set files. raised_by E y = Some e) \<and>
            fst (process_documents E files s) = Raise e))) \<and>
   (list_all (extracted E) pre \<and> reported_size E src = Inr n \<and> max_size < n \<longrightarrow>
      fst (process_documents E (pre @ src # post) s) = Return False \<and>
      fst (snd (process_documents E (pre @ src # post) s)) = s \<and>
      last (snd (snd (process_documents E (pre @ src # post) s))) =
        StError (FileTooLarge (source_name E src) n) \<and>
      list_all (\<lambda>y. CallProcessDocument y \<in>
                  set (snd (snd (process_documents E (pre @ src # post) s)))) pre \<and>
      CallProcessDocument src \<notin> set (snd (snd (process_documents E (pre @ src # post) s))))"
proof (intro conjI impI)
  assume a: "src \<in> set files \<and> reported_size E src = Inr n \<and> max_size < n"
  obtain r ev where sc: "scan_files E files [] = (r, ev)"
    by (cases "scan_files E files []")
  from a have a1: "src \<in> set files" and a2: "reported_size E src = Inr n"
    and a3: "max_size < n"
    by simp_all
  from scan_files_oversize [OF a1 a2 a3 sc]
  have nc: "\<forall>docs. r \<noteq> Collected docs" and np: "CallProcessDocument src \<notin> set ev"
    by simp_all
  from process_documents_not_collected(1,2) [OF sc nc, of s]
    process_documents_not_collected(3) [OF sc nc np, of s]
  show "fst (snd (process_documents E files s)) = s"
    and "CallProcessDocument src \<notin> set (snd (snd (process_documents E files s)))"
    and "fst (process_documents E files s) = Return False \<or>
       (\<exists>e. \<not> is_exception e \<and> (\<exists>y\<in>set files. raised_by E y = Some e) \<and>
            fst (process_documents E files s) = Raise e)"
    by simp_all
next
  assume a: "list_all (extracted E) pre \<and> reported_size E src = Inr n \<and> max_size < n"
  let ?files = "pre @ src # post"
  obtain r ev where sc: "scan_files E ?files [] = (r, ev)"
    by (cases "scan_files E ?files []")
  from a scan_files_prefix [OF _ sc] obtain ev0 ev1 where
    ev: "ev = ev0 @ ev1"
    and rest: "scan_files E (src # post) ([] @ concat (map (chunks_of E) pre)) = (r, ev1)"
    and calls: "\<forall>y\<in>set pre. CallProcessDocument y \<in> set ev0"
    by blast
  from a scan_files_head_oversize [of E src n post "[] @ concat (map (chunks_of E) pre)"] rest
  obtain evs where r: "r = Rejected"
    and ev1: "ev1 = evs @ [StError (FileTooLarge (source_name E src) n)]"
    by auto
  have res: "process_documents E ?files s = (Return False, s, ev)"
    using r by (simp add: process_documents_cases [OF sc])
  from a have a2: "reported_size E src = Inr n" and a3: "max_size < n"
    by simp_all
  have "src \<in> set ?files" by simp
  from scan_files_oversize [OF this a2 a3 sc]
  have np: "CallProcessDocument src \<notin> set ev" by simp
  show "fst (process_documents E ?files s) = Return False"
    and "fst (snd (process_documents E ?files s)) = s"
    by (simp_all add: res)
  show "last (snd (snd (process_documents E ?files s))) =
        StError (FileTooLarge (source_name E src) n)"
    by (simp add: res ev ev1)
  show "list_all (\<lambda>y. CallProcessDocument y \<in> set (snd (snd (process_documents E ?files s)))) pre"
    using calls by (simp add: res ev list_all_iff)
  show "CallProcessDocument src \<notin> set (snd (snd (process_documents E ?files s)))"
    using np by (simp add: res)
qed

text \<open>The theorem at a source of 3 GiB: after a file that cannot be extracted, and between
  files that can.\<close>

theorem oversize_rejected_witness:
  "upload ''big.pdf'' (3 * GiB) \<in> set [upload ''broken.pdf'' 10, upload ''big.pdf'' (3 * GiB)] \<and>
   reported_size sample_env (upload ''big.pdf'' (3 * GiB)) = Inr (3 * GiB) \<and>
   max_size < 3 * GiB \<and>
   process_documents sample_env [upload ''broken.pdf'' 10, upload ''big.pdf'' (3 * GiB)]
     sample_session =
     (Return False, sample_session,
      [CallProcessDocument (upload ''broken.pdf'' 10),
       StError (ErrorProcessing ''broken.pdf'')]) \<and>
   list_all (extracted sample_env) [upload ''ok.pdf'' 10, FilePath ''a.pdf''] \<and>
   process_documents sample_env
     ([upload ''ok.pdf'' 10, FilePath ''a.pdf''] @ upload ''big.pdf'' (3 * GiB) #
      [upload ''new.pdf'' 10]) sample_session =
     (Return False, sample_session,
      [CallProcessDocument (upload ''ok.pdf'' 10), CallGetsize ''a.pdf'', CallOpen ''a.pdf'',
       CallProcessDocument (FilePath ''a.pdf''),
       StError (FileTooLarge ''big.pdf'' (3 * GiB))])"
proof -
  let ?big = "upload ''big.pdf'' (3 * GiB)"
  let ?files = "[upload ''broken.pdf'' 10, ?big]"
  let ?pre = "[upload ''ok.pdf'' 10, FilePath ''a.pdf'']"
  let ?post = "[upload ''new.pdf'' 10]"
  have h1: "?big \<in> set ?files" by simp
  have h2: "reported_size sample_env ?big = Inr (3 * GiB)"
    by (simp add: reported_size_def upload_def)
  have h3: "max_size < 3 * GiB"
    by (simp add: max_size_def GiB_def)
  have h4: "list_all (extracted sample_env) ?pre"
    by (simp add: extracted_def reported_size_def sample_defs)
  note inst = oversize_rejected
    [where src = ?big and files = ?files and E = sample_env and n = "3 * GiB"
       and s = sample_session and pre = ?pre and post = ?post]
  from inst h1 h2 h3
  have c1: "fst (snd (process_documents sample_env ?files sample_session)) = sample_session \<and>
            CallProcessDocument ?big \<notin>
              set (snd (snd (process_documents sample_env ?files sample_session)))"
    by blast
  from inst h2 h3 h4
  have c2: "fst (process_documents sample_env (?pre @ ?big # ?post) sample_session) =
              Return False \<and>
            fst (snd (process_documents sample_env (?pre @ ?big # ?post) sample_session)) =
              sample_session \<and>
            last (snd (snd (process_documents sample_env (?pre @ ?big # ?post)
                              sample_session))) =
              StError (FileTooLarge (source_name sample_env ?big) (3 * GiB))"
    by blast
  have v1: "process_documents sample_env ?files sample_session =
     (Return False, sample_session,
      [CallProcessDocument (upload ''broken.pdf'' 10),
       StError (ErrorProcessing ''broken.pdf'')])"
    by (simp add: process_documents_def process_documents_try_def sample_defs)
  have v2: "process_documents sample_env (?pre @ ?big # ?post) sample_session =
     (Return False, sample_session,
      [CallProcessDocument (upload ''ok.pdf'' 10), CallGetsize ''a.pdf'', CallOpen ''a.pdf'',
       CallProcessDocument (FilePath ''a.pdf''),
       StError (FileTooLarge ''big.pdf'' (3 * GiB))])"
    by (simp add: process_documents_def process_documents_try_def sample_defs)
  from c1 c2 v1 v2 h1 h2 h3 h4 show ?thesis by blast
qed

text \<open>
  Against claim C1 as stated: for the batch of a small file and a file of 3 GiB the body
  of the \<^verbatim>\<open>try\<close> statement ends with \<^verbatim>\<open>return False\<close> after an \<^verbatim>\<open>st.error\<close> message. It
  raises no exception, so no \<^verbatim>\<open>SourceTooLargeError\<close> reaches the caller, and the file
  before the oversized one has been extracted by then.
\<close>

theorem oversize_counterexample:
  "process_documents_try sample_env [upload ''ok.pdf'' 10, upload ''big.pdf'' (3 * GiB)]
     sample_session =
   (Return False, sample_session,
    [CallProcessDocument (upload ''ok.pdf'' 10),
     StError (FileTooLarge ''big.pdf'' (3 * GiB))])"
  by (simp add: process_documents_try_def sample_defs)

text \<open>
  Claim C9. The size check rejects a source only when its size is strictly greater than
  \<^verbatim>\<open>2 * 1024 * 1024 * 1024\<close> bytes. An uploaded file is handed to \<^verbatim>\<open>process_document\<close>
  exactly when its size is at most the cap; a path is opened exactly when the size of its
  file is at most the cap, and is then handed to \<^verbatim>\<open>process_document\<close> when it can be
  opened; and the path input of \<^verbatim>\<open>main\<close> appends an existing PDF path to \<^verbatim>\<open>large_files\<close>
  exactly when the size of its file is at most the cap. A source of exactly 2 GiB is
  accepted on each path.
\<close>

theorem size_cap_boundary:
  "(CallProcessDocument (FileObj f) \<in> set (snd (scan_files E (FileObj f # files) acc)))
     = (fo_size f \<le> 2 * 1024 * 1024 * 1024) \<and>
   (getsize E p = Inr n \<longrightarrow>
      (CallOpen p \<in> set (snd (scan_files E (FilePath p # files) acc)))
        = (n \<le> 2 * 1024 * 1024 * 1024)) \<and>
   (getsize E p = Inr n \<and> open_rb E p = Inr h \<longrightarrow>
      (CallProcessDocument (FilePath p) \<in> set (snd (scan_files E (FilePath p # files) acc)))
        = (n \<le> 2 * 1024 * 1024 * 1024)) \<and>
   (getsize E p = Inr n \<and> p \<noteq> [] \<and> endswith (lower p) ''.pdf'' \<and> path_exists E p \<longrightarrow>
      (large_files (fst (enter_file_path E p s)) = Some (paths s @ [p]))
        = (n \<le> 2 * 1024 * 1024 * 1024))"
proof (intro conjI impI)
  show "(CallProcessDocument (FileObj f) \<in> set (snd (scan_files E (FileObj f # files) acc)))
     = (fo_size f \<le> 2 * 1024 * 1024 * 1024)"
    by (auto simp: max_size_def split: sum.splits prod.splits)
next
  assume "getsize E p = Inr n"
  then show "(CallOpen p \<in> set (snd (scan_files E (FilePath p # files) acc)))
        = (n \<le> 2 * 1024 * 1024 * 1024)"
    by (auto simp: max_size_def split: sum.splits prod.splits)
next
  assume "getsize E p = Inr n \<and> open_rb E p = Inr h"
  then show "(CallProcessDocument (FilePath p) \<in>
               set (snd (scan_files E (FilePath p # files) acc)))
        = (n \<le> 2 * 1024 * 1024 * 1024)"
    by (auto simp: max_size_def split: sum.splits prod.splits)
next
  assume "getsize E p = Inr n \<and> p \<noteq> [] \<and> endswith (lower p) ''.pdf'' \<and> path_exists E p"
  then show "(large_files (fst (enter_file_path E p s)) = Some (paths s @ [p]))
        = (n \<le> 2 * 1024 * 1024 * 1024)"
    by (auto simp: enter_file_path_def paths_def split: option.splits)
qed

text \<open>The theorem at a file of exactly 2 GiB, uploaded and entered as a path.\<close>

theorem size_cap_boundary_witness:
  "CallProcessDocument (FileObj \<lparr>fo_name = ''two.pdf'', fo_size = 2 * GiB\<rparr>) \<in>
     set (snd (scan_files sample_env [FileObj \<lparr>fo_name = ''two.pdf'', fo_size = 2 * GiB\<rparr>] [])) \<and>
   getsize sample_env ''two.pdf'' = Inr (2 * GiB) \<and>
   open_rb sample_env ''two.pdf'' = Inr \<lparr>fo_name = ''two.pdf'', fo_size = 2 * GiB\<rparr> \<and>
   CallOpen ''two.pdf'' \<in> set (snd (scan_files sample_env [FilePath ''two.pdf''] [])) \<and>
   CallProcessDocument (FilePath ''two.pdf'') \<in>
     set (snd (scan_files sample_env [FilePath ''two.pdf''] [])) \<and>
   endswith (lower ''two.pdf'') ''.pdf'' \<and> path_exists sample_env ''two.pdf'' \<and>
   large_files (fst (enter_file_path sample_env ''two.pdf'' sample_session)) =
     Some [''a.pdf'', ''two.pdf'']"
proof -
  have h1: "getsize sample_env ''two.pdf'' = Inr (2 * GiB)"
    by (simp add: sample_env_def sample_getsize_def)
  have h2: "open_rb sample_env ''two.pdf'' = Inr \<lparr>fo_name = ''two.pdf'', fo_size = 2 * GiB\<rparr>"
    by (simp add: sample_env_def sample_getsize_def)
  have h3: "endswith (lower ''two.pdf'') ''.pdf'' \<and> path_exists sample_env ''two.pdf''"
    by (simp add: endswith_def lower_def lower_char_def sample_env_def)
  have h4: "2 * GiB \<le> 2 * 1024 * 1024 * 1024" "''two.pdf'' \<noteq> []"
    by (simp_all add: GiB_def)
  have h5: "paths sample_session = [''a.pdf'']"
    by (simp add: paths_def sample_session_def)
  from size_cap_boundary
         [where f = "\<lparr>fo_name = ''two.pdf'', fo_size = 2 * GiB\<rparr>" and E = sample_env
            and files = "[]" and acc = "[]" and p = "''two.pdf''" and n = "2 * GiB"
            and h = "\<lparr>fo_name = ''two.pdf'', fo_size = 2 * GiB\<rparr>" and s = sample_session]
       h1 h2 h3 h4 h5
  show ?thesis by simp
qed

subsection \<open>Asking without documents\<close>

text \<open>
  Claim C2. A query submitted while \<^verbatim>\<open>st.session_state.documents\<close> is empty is answered with
  the fixed response: the run finishes, its trace holds the two chat messages written and
  no call of the embedding manager or the chat manager, and the user message and the fixed
  response are appended to the message history.
\<close>

theorem ask_without_documents:
  assumes "documents s = []" and "query \<noteq> []"
  shows "chat E (Some query) s =
           (Finished,
            s\<lparr>messages := messages s @
                 [\<lparr>role = ''user'', content = query\<rparr>,
                  \<lparr>role = ''assistant'', content = no_documents_response\<rparr>]\<rparr>,
            [StWrite ''user'' query, StWrite ''assistant'' no_documents_response])"
  using assms by (simp add: chat_def Let_def)

text \<open>The theorem at the query \<^verbatim>\<open>hi\<close> in a session without documents.\<close>

theorem ask_without_documents_witness:
  "documents empty_session = [] \<and> ''hi'' \<noteq> [] \<and>
   chat sample_env (Some ''hi'') empty_session =
     (Finished,
      empty_session\<lparr>messages :=
        [\<lparr>role = ''user'', content = ''hi''\<rparr>,
         \<lparr>role = ''assistant'', content = ''Please upload and process PDF documents first!''\<rparr>]\<rparr>,
      [StWrite ''user'' ''hi'',
       StWrite ''assistant'' ''Please upload and process PDF documents first!''])"
proof -
  have h1: "documents empty_session = []" by (simp add: empty_session_def)
  have h2: "''hi'' \<noteq> []" by simp
  from ask_without_documents [OF h1 h2, of sample_env] h1 show ?thesis
    by (simp add: no_documents_response_def empty_session_def)
qed

subsection \<open>Failing and succeeding ingestion\<close>

text \<open>
  Claim C3, as the code has it. If for any file of the batch the size check rejects it or
  \<^verbatim>\<open>os.path.getsize\<close>, \<^verbatim>\<open>open\<close> or \<^verbatim>\<open>process_document\<close> raises, the session state after
  \<^verbatim>\<open>process_documents\<close> is exactly the state before, and the function returns \<^verbatim>\<open>False\<close>
  or lets through an exception that is no \<^verbatim>\<open>Exception\<close>, raised for a file of the
  batch: when every file before the raising one is extracted, it returns \<^verbatim>\<open>False\<close> for
  an \<^verbatim>\<open>Exception\<close> and lets any other exception through. If every file is extracted
  and \<^verbatim>\<open>create_embeddings\<close> does not return \<^verbatim>\<open>True\<close> (it returns \<^verbatim>\<open>False\<close> or raises),
  the chunk collection has already been replaced by the chunks of the batch and the
  embedding manager is as \<^verbatim>\<open>create_embeddings\<close> left it. The same state results when
  \<^verbatim>\<open>create_embeddings\<close> returns \<^verbatim>\<open>True\<close> and the embedding manager has no attribute
  \<^verbatim>\<open>retriever\<close>, and, with the chat manager as \<^verbatim>\<open>set_retriever\<close> left it, when
  \<^verbatim>\<open>set_retriever\<close> raises. In each of these cases the function returns \<^verbatim>\<open>False\<close>, or
  lets the exception through when it is no \<^verbatim>\<open>Exception\<close>.
\<close>

theorem failed_ingestion_state:
  "(x \<in> set files \<and>
    (raised_by E x = Some e \<or> (reported_size E x = Inr n \<and> max_size < n)) \<longrightarrow>
      fst (snd (process_documents E files s)) = s \<and>
      (fst (process_documents E files s) = Return False \<or>
       (\<exists>e'. \<not> is_exception e' \<and> (\<exists>y\<in>set files. raised_by E y = Some e') \<and>
             fst (process_documents E files s) = Raise e'))) \<and>
   (list_all (extracted E) pre \<and> raised_by E x = Some e \<longrightarrow>
      fst (process_documents E (pre @ x # post) s) =
        (if is_exception e then Return False else Raise e) \<and>
      fst (snd (process_documents E (pre @ x # post) s)) = s) \<and>
   (list_all (extracted E) files \<and>
    create_embeddings E (embedding_manager s) (concat (map (chunks_of E) files)) = (em, res) \<and>
    res \<noteq> Inr True \<longrightarrow>
      fst (process_documents E files s) =
        (case res of
           Inl e' \<Rightarrow> if is_exception e' then Return False else Raise e'
         | Inr b \<Rightarrow> Return False) \<and>
      fst (snd (process_documents E files s)) =
        s\<lparr>documents := concat (map (chunks_of E) files), embedding_manager := em\<rparr>) \<and>
   (list_all (extracted E) files \<and>
    create_embeddings E (embedding_manager s) (concat (map (chunks_of E) files)) =
      (em, Inr True) \<and>
    retriever E em = None \<longrightarrow>
      fst (process_documents E files s) = Return False \<and>
      fst (snd (process_documents E files s)) =
        s\<lparr>documents := concat (map (chunks_of E) files), embedding_manager := em\<rparr>) \<and>
   (list_all (extracted E) files \<and>
    create_embeddings E (embedding_manager s) (concat (map (chunks_of E) files)) =
      (em, Inr True) \<and>
    retriever E em = Some v \<and> set_retriever E (chat_manager s) v = (cm, Some e) \<longrightarrow>
      fst (process_documents E files s) =
        (if is_exception e then Return False else Raise e) \<and>
      fst (snd (process_documents E files s)) =
        s\<lparr>documents := concat (map (chunks_of E) files), embedding_manager := em,
           chat_manager := cm\<rparr>)"
proof (intro conjI impI)
  assume a: "x \<in> set files \<and>
    (raised_by E x = Some e \<or> (reported_size E x = Inr n \<and> max_size < n))"
  obtain r ev where sc: "scan_files E files [] = (r, ev)"
    by (cases "scan_files E files []")
  from a have mem: "x \<in> set files" by simp
  have nc: "\<forall>docs. r \<noteq> Collected docs"
  proof (cases "raised_by E x = Some e")
    case True
    from scan_files_raising [OF mem True sc] show ?thesis by simp
  next
    case False
    with a have "reported_size E x = Inr n" and "max_size < n" by simp_all
    from scan_files_oversize [OF mem this sc] show ?thesis by simp
  qed
  from process_documents_not_collected(1,2) [OF sc nc, of s]
  show "fst (snd (process_documents E files s)) = s"
    and "fst (process_documents E files s) = Return False \<or>
       (\<exists>e'. \<not> is_exception e' \<and> (\<exists>y\<in>set files. raised_by E y = Some e') \<and>
             fst (process_documents E files s) = Raise e')"
    by simp_all
next
  assume a: "list_all (extracted E) pre \<and> raised_by E x = Some e"
  let ?files = "pre @ x # post"
  obtain r ev where sc: "scan_files E ?files [] = (r, ev)"
    by (cases "scan_files E ?files []")
  from a scan_files_prefix [OF _ sc] obtain ev0 ev1 where
    rest: "scan_files E (x # post) ([] @ concat (map (chunks_of E) pre)) = (r, ev1)"
    by blast
  from a scan_files_head_raising [of E x e post "[] @ concat (map (chunks_of E) pre)"] rest
  have r: "r = Raised e" by auto
  show "fst (process_documents E ?files s) = (if is_exception e then Return False else Raise e)"
    and "fst (snd (process_documents E ?files s)) = s"
    using r by (simp_all add: process_documents_cases [OF sc])
next
  assume a: "list_all (extracted E) files \<and>
    create_embeddings E (embedding_manager s) (concat (map (chunks_of E) files)) = (em, res) \<and>
    res \<noteq> Inr True"
  from a scan_files_extracted [of E files "[]"] obtain ev where
    sc: "scan_files E files [] = (Collected (concat (map (chunks_of E) files)), ev)"
    by auto
  from a show "fst (process_documents E files s) =
        (case res of
           Inl e' \<Rightarrow> if is_exception e' then Return False else Raise e'
         | Inr b \<Rightarrow> Return False)"
    by (cases res) (auto simp: process_documents_cases [OF sc])
  from a show "fst (snd (process_documents E files s)) =
        s\<lparr>documents := concat (map (chunks_of E) files), embedding_manager := em\<rparr>"
    by (cases res) (auto simp: process_documents_cases [OF sc])
next
  assume a: "list_all (extracted E) files \<and>
    create_embeddings E (embedding_manager s) (concat (map (chunks_of E) files)) =
      (em, Inr True) \<and>
    retriever E em = None"
  from a scan_files_extracted [of E files "[]"] obtain ev where
    sc: "scan_files E files [] = (Collected (concat (map (chunks_of E) files)), ev)"
    by auto
  from a show "fst (process_documents E files s) = Return False"
    and "fst (snd (process_documents E files s)) =
        s\<lparr>documents := concat (map (chunks_of E) files), embedding_manager := em\<rparr>"
    by (simp_all add: process_documents_cases [OF sc])
next
  assume a: "list_all (extracted E) files \<and>
    create_embeddings E (embedding_manager s) (concat (map (chunks_of E) files)) =
      (em, Inr True) \<and>
    retriever E em = Some v \<and> set_retriever E (chat_manager s) v = (cm, Some e)"
  from a scan_files_extracted [of E files "[]"] obtain ev where
    sc: "scan_files E files [] = (Collected (concat (map (chunks_of E) files)), ev)"
    by auto
  from a show "fst (process_documents E files s) =
        (if is_exception e then Return False else Raise e)"
    and "fst (snd (process_documents E files s)) =
        s\<lparr>documents := concat (map (chunks_of E) files), embedding_manager := em,
           chat_manager := cm\<rparr>"
    by (simp_all add: process_documents_cases [OF sc])
qed

text \<open>The theorem at batches of several files: a file that cannot be extracted among
  others, an interrupted extraction after a good file, a chunk that cannot be embedded,
  an embedding manager without a retriever, and a chat manager that refuses it.\<close>

theorem failed_ingestion_state_witness:
  "upload ''broken.pdf'' 10 \<in>
     set [upload ''new.pdf'' 10, upload ''broken.pdf'' 10, FilePath ''a.pdf''] \<and>
   raised_by sample_env (upload ''broken.pdf'' 10) =
     Some (Exn ''UnsupportedFormatError'' ''broken.pdf'') \<and>
   process_documents sample_env
     [upload ''new.pdf'' 10, upload ''broken.pdf'' 10, FilePath ''a.pdf''] sample_session =
     (Return False, sample_session,
      [CallProcessDocument (upload ''new.pdf'' 10),
       CallProcessDocument (upload ''broken.pdf'' 10),
       StError (ErrorProcessing ''broken.pdf'')]) \<and>
   list_all (extracted sample_env) [upload ''new.pdf'' 10] \<and>
   raised_by sample_env (upload ''stop.pdf'' 10) = Some (BaseExn ''KeyboardInterrupt'' []) \<and>
   process_documents sample_env
     ([upload ''new.pdf'' 10] @ upload ''stop.pdf'' 10 # [FilePath ''a.pdf'']) sample_session =
     (Raise (BaseExn ''KeyboardInterrupt'' []), sample_session,
      [CallProcessDocument (upload ''new.pdf'' 10),
       CallProcessDocument (upload ''stop.pdf'' 10)]) \<and>
   list_all (extracted sample_env) [upload ''new.pdf'' 10, upload ''odd.pdf'' 10] \<and>
   create_embeddings sample_env (embedding_manager sample_session)
     (concat (map (chunks_of sample_env) [upload ''new.pdf'' 10, upload ''odd.pdf'' 10])) =
     ([7], Inl (Exn ''EmbeddingUnavailableError'' ''odd.pdf'')) \<and>
   fst (process_documents sample_env [upload ''new.pdf'' 10, upload ''odd.pdf'' 10]
          sample_session) = Return False \<and>
   fst (snd (process_documents sample_env [upload ''new.pdf'' 10, upload ''odd.pdf'' 10]
          sample_session)) =
     sample_session\<lparr>documents := [''new.pdf'', ''odd.pdf''], embedding_manager := [7]\<rparr> \<and>
   create_embeddings no_retriever_env (embedding_manager sample_session)
     (concat (map (chunks_of no_retriever_env) [upload ''new.pdf'' 10])) =
     ([7, 7], Inr True) \<and>
   retriever no_retriever_env [7, 7] = None \<and>
   fst (process_documents no_retriever_env [upload ''new.pdf'' 10] sample_session) =
     Return False \<and>
   fst (snd (process_documents no_retriever_env [upload ''new.pdf'' 10] sample_session)) =
     sample_session\<lparr>documents := [''new.pdf''], embedding_manager := [7, 7]\<rparr> \<and>
   retriever refusing_env [7, 7] = Some (Some 2) \<and>
   set_retriever refusing_env (chat_manager sample_session) (Some 2) =
     (1, Some (Exn ''TypeError'' ''retriever'')) \<and>
   fst (process_documents refusing_env [upload ''new.pdf'' 10] sample_session) =
     Return False \<and>
   fst (snd (process_documents refusing_env [upload ''new.pdf'' 10] sample_session)) =
     sample_session\<lparr>documents := [''new.pdf''], embedding_manager := [7, 7],
                    chat_manager := 1\<rparr>"
proof -
  let ?new = "upload ''new.pdf'' 10"
  let ?broken = "upload ''broken.pdf'' 10"
  let ?stop = "upload ''stop.pdf'' 10"
  let ?odd = "upload ''odd.pdf'' 10"
  let ?s = sample_session
  have a1: "?broken \<in> set [?new, ?broken, FilePath ''a.pdf'']" by simp
  have a2: "raised_by sample_env ?broken = Some (Exn ''UnsupportedFormatError'' ''broken.pdf'')"
    by (simp add: sample_defs)
  from failed_ingestion_state
         [where x = ?broken and files = "[?new, ?broken, FilePath ''a.pdf'']"
            and E = sample_env and e = "Exn ''UnsupportedFormatError'' ''broken.pdf''"
            and s = ?s]
       a1 a2
  have c1: "fst (snd (process_documents sample_env [?new, ?broken, FilePath ''a.pdf''] ?s)) = ?s"
    by blast
  have v1: "process_documents sample_env [?new, ?broken, FilePath ''a.pdf''] ?s =
     (Return False, ?s,
      [CallProcessDocument ?new, CallProcessDocument ?broken,
       StError (ErrorProcessing ''broken.pdf'')])"
    by (simp add: process_documents_def process_documents_try_def sample_defs)
  have b1: "list_all (extracted sample_env) [?new]"
    by (simp add: extracted_def reported_size_def sample_defs)
  have b2: "raised_by sample_env ?stop = Some (BaseExn ''KeyboardInterrupt'' [])"
    by (simp add: sample_defs)
  from failed_ingestion_state
         [where pre = "[?new]" and x = ?stop and post = "[FilePath ''a.pdf'']"
            and E = sample_env and e = "BaseExn ''KeyboardInterrupt'' []" and s = ?s]
       b1 b2
  have c2: "fst (process_documents sample_env ([?new] @ ?stop # [FilePath ''a.pdf'']) ?s) =
              (if is_exception (BaseExn ''KeyboardInterrupt'' []) then Return False
               else Raise (BaseExn ''KeyboardInterrupt'' [])) \<and>
            fst (snd (process_documents sample_env ([?new] @ ?stop # [FilePath ''a.pdf'']) ?s))
              = ?s"
    by blast
  have v2: "process_documents sample_env ([?new] @ ?stop # [FilePath ''a.pdf'']) ?s =
     (Raise (BaseExn ''KeyboardInterrupt'' []), ?s,
      [CallProcessDocument ?new, CallProcessDocument ?stop])"
    by (simp add: process_documents_def process_documents_try_def sample_defs)
  have d1: "list_all (extracted sample_env) [?new, ?odd]"
    by (simp add: extracted_def reported_size_def sample_defs)
  have d2: "create_embeddings sample_env (embedding_manager ?s)
              (concat (map (chunks_of sample_env) [?new, ?odd])) =
            ([7], Inl (Exn ''EmbeddingUnavailableError'' ''odd.pdf''))"
    by (simp add: sample_defs)
  have d3: "Inl (Exn ''EmbeddingUnavailableError'' ''odd.pdf'') \<noteq> (Inr True :: exn + bool)"
    by simp
  have d4: "concat (map (chunks_of sample_env) [?new, ?odd]) = [''new.pdf'', ''odd.pdf'']"
    by (simp add: sample_defs)
  from failed_ingestion_state
         [where files = "[?new, ?odd]" and E = sample_env and s = ?s and em = "[7]"
            and res = "Inl (Exn ''EmbeddingUnavailableError'' ''odd.pdf'')"]
       d1 d2 d3
  have c3: "fst (process_documents sample_env [?new, ?odd] ?s) = Return False \<and>
            fst (snd (process_documents sample_env [?new, ?odd] ?s)) =
              ?s\<lparr>documents := [''new.pdf'', ''odd.pdf''], embedding_manager := [7]\<rparr>"
    unfolding d4 by simp
  have e1: "list_all (extracted no_retriever_env) [?new]"
    by (simp add: extracted_def reported_size_def no_retriever_env_def sample_defs)
  have e2: "create_embeddings no_retriever_env (embedding_manager ?s)
              (concat (map (chunks_of no_retriever_env) [?new])) = ([7, 7], Inr True)"
    by (simp add: no_retriever_env_def sample_defs)
  have e3: "retriever no_retriever_env [7, 7] = None"
    by (simp add: no_retriever_env_def)
  have e4: "concat (map (chunks_of no_retriever_env) [?new]) = [''new.pdf'']"
    by (simp add: no_retriever_env_def sample_defs)
  from failed_ingestion_state
         [where files = "[?new]" and E = no_retriever_env and s = ?s and em = "[7, 7]"]
       e1 e2 e3
  have c4: "fst (process_documents no_retriever_env [?new] ?s) = Return False \<and>
            fst (snd (process_documents no_retriever_env [?new] ?s)) =
              ?s\<lparr>documents := [''new.pdf''], embedding_manager := [7, 7]\<rparr>"
    unfolding e4 by simp
  have f1: "list_all (extracted refusing_env) [?new]"
    by (simp add: extracted_def reported_size_def refusing_env_def sample_defs)
  have f2: "create_embeddings refusing_env (embedding_manager ?s)
              (concat (map (chunks_of refusing_env) [?new])) = ([7, 7], Inr True)"
    by (simp add: refusing_env_def sample_defs)
  have f3: "retriever refusing_env [7, 7] = Some (Some 2)"
    by (simp add: refusing_env_def sample_defs)
  have f4: "set_retriever refusing_env (chat_manager ?s) (Some 2) =
              (1, Some (Exn ''TypeError'' ''retriever''))"
    by (simp add: refusing_env_def sample_defs)
  have f5: "concat (map (chunks_of refusing_env) [?new]) = [''new.pdf'']"
    by (simp add: refusing_env_def sample_defs)
  from failed_ingestion_state
         [where files = "[?new]" and E = refusing_env and s = ?s and em = "[7, 7]"
            and v = "Some 2" and cm = 1 and e = "Exn ''TypeError'' ''retriever''"]
       f1 f2 f3 f4
  have c5: "fst (process_documents refusing_env [?new] ?s) = Return False \<and>
            fst (snd (process_documents refusing_env [?new] ?s)) =
              ?s\<lparr>documents := [''new.pdf''], embedding_manager := [7, 7], chat_manager := 1\<rparr>"
    unfolding f5 by simp
  from a1 a2 v1 b1 b2 v2 d1 d2 c3 e2 [unfolded e4] e3 c4 f3 f4 c5 c1 c2
  show ?thesis unfolding e4 by blast
qed

text \<open>
  Against claim C3 as stated: the embedding of the batch fails, \<^verbatim>\<open>process_documents\<close>
  returns \<^verbatim>\<open>False\<close>, and the chunk collection of the session is no longer the one it was
  before the call, while the index is.
\<close>

theorem failed_embedding_counterexample:
  "fst (process_documents sample_env [upload ''odd.pdf'' 10] sample_session) = Return False \<and>
   documents (fst (snd (process_documents sample_env [upload ''odd.pdf'' 10] sample_session)))
     = [''odd.pdf''] \<and>
   documents sample_session = [''old.pdf''] \<and>
   embedding_manager (fst (snd (process_documents sample_env [upload ''odd.pdf'' 10]
      sample_session))) = embedding_manager sample_session"
  by (simp add: process_documents_def process_documents_try_def sample_defs)

text \<open>
  Claim C4, as the code has it. After a successful \<^verbatim>\<open>process_documents\<close> the chunk
  collection of the session is exactly the chunks extracted from the files of this batch,
  in the order of the batch: line 85 assigns \<^verbatim>\<open>all_documents\<close>, it does not extend the
  collection.
\<close>

theorem ingestion_replaces_documents:
  assumes "fst (process_documents E files s) = Return True"
  shows "documents (fst (snd (process_documents E files s))) = concat (map (chunks_of E) files)"
proof -
  obtain r ev where sc: "scan_files E files [] = (r, ev)"
    by (cases "scan_files E files []")
  from assms obtain docs where r: "r = Collected docs"
    by (cases r) (auto simp: process_documents_cases [OF sc] split: if_splits)
  from scan_files_collected [OF sc [unfolded r]]
  have d: "docs = concat (map (chunks_of E) files)" by simp
  from assms show ?thesis
    by (auto simp: process_documents_cases [OF sc] r d
             split: prod.splits sum.splits bool.splits option.splits if_splits)
qed

text \<open>The theorem at a batch of an uploaded file and a path.\<close>

theorem ingestion_replaces_documents_witness:
  "fst (process_documents sample_env [upload ''new.pdf'' 10, FilePath ''a.pdf''] sample_session)
     = Return True \<and>
   documents (fst (snd (process_documents sample_env [upload ''new.pdf'' 10, FilePath ''a.pdf'']
                          sample_session))) = [''new.pdf'', ''a.pdf'']"
proof -
  have h: "fst (process_documents sample_env [upload ''new.pdf'' 10, FilePath ''a.pdf'']
                  sample_session) = Return True"
    by (simp add: process_documents_def process_documents_try_def sample_defs)
  from ingestion_replaces_documents [OF h] h show ?thesis
    by (simp add: sample_defs)
qed

text \<open>
  Against claim C4 as stated: a session that holds the chunk of \<^verbatim>\<open>old.pdf\<close> ingests
  \<^verbatim>\<open>new.pdf\<close> successfully, and the chunk of \<^verbatim>\<open>old.pdf\<close> is gone.
\<close>

theorem replaced_chunks_counterexample:
  "fst (process_documents sample_env [upload ''new.pdf'' 10] sample_session) = Return True \<and>
   ''old.pdf'' \<in> set (documents sample_session) \<and>
   ''old.pdf'' \<notin> set (documents (fst (snd (process_documents sample_env
                                              [upload ''new.pdf'' 10] sample_session))))"
  by (simp add: process_documents_def process_documents_try_def sample_defs)

text \<open>
  Claim C6, as the code has it, with the embedding manager being the vector index of the
  specification. After a successful \<^verbatim>\<open>process_documents\<close> on a session whose index is
  empty, the chunk collection and the index have the same length; and after clearing the
  file chunks, with \<^verbatim>\<open>clear_embeddings\<close> available, both are empty.
\<close>

theorem index_matches_documents:
  assumes "create_embeddings E = spec_create_embeddings embed_texts"
  shows "(fst (process_documents E files s) = Return True \<and> embedding_manager s = [] \<longrightarrow>
            length (documents (fst (snd (process_documents E files s)))) =
              length (embedding_manager (fst (snd (process_documents E files s))))) \<and>
         (has_clear_embeddings E \<and> clear_embeddings E = index_clear \<longrightarrow>
            documents (fst (snd (clear_file_chunks E s))) = [] \<and>
            embedding_manager (fst (snd (clear_file_chunks E s))) = [])"
proof -
  obtain r ev where sc: "scan_files E files [] = (r, ev)"
    by (cases "scan_files E files []")
  have grow: "length (embedding_manager (fst (snd (process_documents E files s)))) =
              length (embedding_manager s) +
              length (documents (fst (snd (process_documents E files s))))"
    if "fst (process_documents E files s) = Return True"
    using that assms
    by (auto simp: process_documents_cases [OF sc] spec_create_embeddings_def index_insert_def
             split: scan.splits prod.splits sum.splits bool.splits option.splits if_splits)
  have clear: "documents (fst (snd (clear_file_chunks E s))) = [] \<and>
            embedding_manager (fst (snd (clear_file_chunks E s))) = []"
    if "has_clear_embeddings E \<and> clear_embeddings E = index_clear"
    using that by (simp add: clear_file_chunks_def index_clear_def Let_def)
  from grow clear show ?thesis by simp
qed

text \<open>The theorem at a first successful load and at a clear.\<close>

theorem index_matches_documents_witness:
  "create_embeddings sample_env = spec_create_embeddings sample_embed \<and>
   fst (process_documents sample_env [upload ''new.pdf'' 10] empty_session) = Return True \<and>
   embedding_manager empty_session = [] \<and>
   length (documents (fst (snd (process_documents sample_env [upload ''new.pdf'' 10]
                                  empty_session)))) =
   length (embedding_manager (fst (snd (process_documents sample_env [upload ''new.pdf'' 10]
                                          empty_session)))) \<and>
   has_clear_embeddings sample_env \<and> clear_embeddings sample_env = index_clear \<and>
   documents (fst (snd (clear_file_chunks sample_env sample_session))) = [] \<and>
   embedding_manager (fst (snd (clear_file_chunks sample_env sample_session))) = []"
proof -
  have h1: "create_embeddings sample_env = spec_create_embeddings sample_embed"
    by (simp add: sample_env_def)
  have h2: "fst (process_documents sample_env [upload ''new.pdf'' 10] empty_session)
              = Return True"
    by (simp add: process_documents_def process_documents_try_def sample_defs)
  have h3: "embedding_manager empty_session = []"
    by (simp add: empty_session_def)
  have h4: "has_clear_embeddings sample_env \<and> clear_embeddings sample_env = index_clear"
    by (simp add: sample_env_def)
  from index_matches_documents
         [OF h1, where files = "[upload ''new.pdf'' 10]" and s = empty_session] h2 h3
  have a: "length (documents (fst (snd (process_documents sample_env [upload ''new.pdf'' 10]
                                  empty_session)))) =
   length (embedding_manager (fst (snd (process_documents sample_env [upload ''new.pdf'' 10]
                                          empty_session))))"
    by blast
  from index_matches_documents [OF h1, where s = sample_session] h4
  have b: "documents (fst (snd (clear_file_chunks sample_env sample_session))) = [] \<and>
           embedding_manager (fst (snd (clear_file_chunks sample_env sample_session))) = []"
    by blast
  from a b h1 h2 h3 h4 show ?thesis by blast
qed

text \<open>
  Against claim C6 as stated, in three ways. After a load whose embedding fails, the
  session holds one chunk and the index no vector. After a successful load into a session
  that held one chunk and one vector, the session holds one chunk and the index two
  vectors: line 85 replaces the chunk collection while the index of the specification
  appends. After clearing the file chunks of that session when the embedding manager has
  no \<^verbatim>\<open>clear_embeddings\<close>, the session holds no chunk and the index one vector.
\<close>

theorem orphan_chunks_counterexample:
  "length (documents (fst (snd (process_documents sample_env [upload ''odd.pdf'' 10]
                                  empty_session)))) = 1 \<and>
   length (embedding_manager (fst (snd (process_documents sample_env [upload ''odd.pdf'' 10]
                                          empty_session)))) = 0 \<and>
   length (documents sample_session) = 1 \<and>
   length (embedding_manager sample_session) = 1 \<and>
   fst (process_documents sample_env [upload ''new.pdf'' 10] sample_session) = Return True \<and>
   length (documents (fst (snd (process_documents sample_env [upload ''new.pdf'' 10]
                                  sample_session)))) = 1 \<and>
   length (embedding_manager (fst (snd (process_documents sample_env [upload ''new.pdf'' 10]
                                          sample_session)))) = 2 \<and>
   fst (clear_file_chunks no_clear_env sample_session) = Rerun \<and>
   length (documents (fst (snd (clear_file_chunks no_clear_env sample_session)))) = 0 \<and>
   length (embedding_manager (fst (snd (clear_file_chunks no_clear_env sample_session)))) = 1"
  by (simp add: process_documents_def process_documents_try_def clear_file_chunks_def
                no_clear_env_def sample_defs)

subsection \<open>Conversation reset\<close>

text \<open>
  Claim C5. Clearing the conversation empties the message history and leaves the chunk
  collection, the embedding manager (which owns the vector index) and the list of large
  files unchanged; its only call of a collaborator is \<^verbatim>\<open>reset_conversation\<close> of the chat
  manager. This holds whether or not that call raises.
\<close>

theorem reset_conversation_frame:
  "messages (fst (snd (clear_conversation E s))) = [] \<and>
   documents (fst (snd (clear_conversation E s))) = documents s \<and>
   embedding_manager (fst (snd (clear_conversation E s))) = embedding_manager s \<and>
   large_files (fst (snd (clear_conversation E s))) = large_files s \<and>
   snd (snd (clear_conversation E s)) = [CallResetConversation]"
  by (simp add: clear_conversation_def Let_def split: prod.splits option.splits)

subsection \<open>Failure of the generation call\<close>

text \<open>
  Claim C7. When \<^verbatim>\<open>generate_response\<close> raises during a query turn, the exception leaves
  \<^verbatim>\<open>main\<close> unchanged, and the message history has grown by the user message only: no
  assistant message is appended. The retrieved documents are the empty list when the
  embedding manager has a retriever and the result of \<^verbatim>\<open>search\<close> otherwise.
\<close>

theorem generation_failure_no_turn:
  assumes "documents s \<noteq> []" and "query \<noteq> []"
    and "(has_retriever E (embedding_manager s) \<and> docs = []) \<or>
         (\<not> has_retriever E (embedding_manager s) \<and>
          search E (embedding_manager s) query = Inr docs)"
    and "generate_response E (chat_manager s) query docs = (cm, Inl e)"
  shows "chat E (Some query) s =
           (Crashed e,
            s\<lparr>messages := messages s @ [\<lparr>role = ''user'', content = query\<rparr>],
              chat_manager := cm\<rparr>,
            StWrite ''user'' query #
            (if has_retriever E (embedding_manager s) then [] else [CallSearch query]) @
            [CallGenerateResponse query docs])"
  using assms by (auto simp: chat_def Let_def)

text \<open>The theorem at a query the chat manager cannot answer.\<close>

theorem generation_failure_no_turn_witness:
  "documents sample_session \<noteq> [] \<and> ''fail'' \<noteq> [] \<and>
   has_retriever sample_env (embedding_manager sample_session) \<and>
   generate_response sample_env (chat_manager sample_session) ''fail'' [] =
     (0, Inl (Exn ''GenerationError'' ''no completion'')) \<and>
   chat sample_env (Some ''fail'') sample_session =
     (Crashed (Exn ''GenerationError'' ''no completion''),
      sample_session\<lparr>messages := [\<lparr>role = ''user'', content = ''hello''\<rparr>,
                                   \<lparr>role = ''user'', content = ''fail''\<rparr>]\<rparr>,
      [StWrite ''user'' ''fail'', CallGenerateResponse ''fail'' []])"
proof -
  have h1: "documents sample_session \<noteq> []" by (simp add: sample_session_def)
  have h2: "''fail'' \<noteq> []" by simp
  have h3: "has_retriever sample_env (embedding_manager sample_session)"
    by (simp add: has_retriever_def sample_env_def sample_session_def)
  have h4: "generate_response sample_env (chat_manager sample_session) ''fail'' [] =
     (0, Inl (Exn ''GenerationError'' ''no completion''))"
    by (simp add: sample_env_def sample_session_def)
  from h3 have h3': "(has_retriever sample_env (embedding_manager sample_session) \<and>
                      ([] :: string list) = []) \<or>
         (\<not> has_retriever sample_env (embedding_manager sample_session) \<and>
          search sample_env (embedding_manager sample_session) ''fail'' = Inr [])"
    by simp
  from generation_failure_no_turn [OF h1 h2 h3' h4] h1 h3 h4 show ?thesis
    by (simp add: sample_session_def)
qed

subsection \<open>Missing credential\<close>

text \<open>
  Claim C8. In a session without a chat manager, a run under an invalid configuration
  shows the missing-key error, once, and does nothing else, whatever the widget values
  are: it finishes at once, calls no collaborator, and leaves the messages, the
  documents and the large files untouched. The chat manager is still absent afterwards,
  so the same holds of every later run of the session under that configuration.
\<close>

theorem missing_credential_blocks:
  assumes "k_chat_manager st = None" and "\<not> config_is_valid E"
  shows "fst (main E inp st) = Finished \<and>
         snd (snd (main E inp st)) = [StError MissingApiKey] \<and>
         k_chat_manager (fst (snd (main E inp st))) = None \<and>
         k_messages (fst (snd (main E inp st))) = k_messages st \<and>
         k_documents (fst (snd (main E inp st))) = k_documents st \<and>
         k_large_files (fst (snd (main E inp st))) = k_large_files st"
  using assms by (simp add: main_def initialize_session_state_def Let_def)

text \<open>The theorem at the first run of a session, with a file uploaded, a path entered, the
  process button pressed and a query submitted.\<close>

theorem missing_credential_blocks_witness:
  "k_chat_manager fresh_state = None \<and> \<not> config_is_valid no_key_env \<and>
   main no_key_env
     \<lparr>uploaded_files = [\<lparr>fo_name = ''new.pdf'', fo_size = 10\<rparr>], file_path = ''a.pdf'',
      process_button = True, clear_conversation_button = False,
      clear_file_chunks_button = False, chat_input = Some ''hi''\<rparr> fresh_state =
   (Finished, fresh_state\<lparr>k_processor := True, k_embedding_manager := Some []\<rparr>,
    [StError MissingApiKey])"
proof -
  have h1: "k_chat_manager fresh_state = None" by (simp add: fresh_state_def)
  have h2: "\<not> config_is_valid no_key_env" by (simp add: no_key_env_def)
  from missing_credential_blocks [OF h1 h2] h1 h2 show ?thesis
    by (simp add: main_def initialize_session_state_def no_key_env_def sample_env_def
                  fresh_state_def)
qed

subsection \<open>The list of large files\<close>

text \<open>
  Claim C10. \<^verbatim>\<open>process_documents\<close> leaves \<^verbatim>\<open>large_files\<close> as it is. Each validation of an
  entered path appends the path, also when the list holds it already. After a run the
  list is the former list with at most that append, unless the clear-file-chunks button
  was pressed and the list is empty; so without that button the former list is a prefix
  of the new one. Every entry of the list is part of the batch handed to
  \<^verbatim>\<open>process_documents\<close>. Clearing the file chunks empties the list.
\<close>

theorem large_files_accumulate:
  "large_files (fst (snd (process_documents E files s))) = large_files s \<and>
   (p \<noteq> [] \<and> endswith (lower p) ''.pdf'' \<and> path_exists E p \<and> getsize E p = Inr n \<and>
    n \<le> 2 * 1024 * 1024 * 1024 \<longrightarrow>
      paths (fst (enter_file_path E p s)) = paths s @ [p]) \<and>
   (paths (fst (snd (app E inp s))) = paths (fst (enter_file_path E (file_path inp) s)) \<or>
    (clear_file_chunks_button inp \<and> paths (fst (snd (app E inp s))) = [])) \<and>
   (\<not> clear_file_chunks_button inp \<longrightarrow>
      take (length (paths s)) (paths (fst (snd (app E inp s)))) = paths s) \<and>
   (q \<in> set (paths s) \<longrightarrow> FilePath q \<in> set (all_files_to_process inp s)) \<and>
   paths (fst (snd (clear_file_chunks E s))) = []"
proof (intro conjI impI)
  show "large_files (fst (snd (process_documents E files s))) = large_files s"
    by (rule process_documents_large_files)
next
  assume "p \<noteq> [] \<and> endswith (lower p) ''.pdf'' \<and> path_exists E p \<and> getsize E p = Inr n \<and>
    n \<le> 2 * 1024 * 1024 * 1024"
  then show "paths (fst (enter_file_path E p s)) = paths s @ [p]"
    by (simp add: enter_file_path_def paths_def)
next
  show "paths (fst (snd (app E inp s))) = paths (fst (enter_file_path E (file_path inp) s)) \<or>
    (clear_file_chunks_button inp \<and> paths (fst (snd (app E inp s))) = [])"
    by (rule app_paths)
next
  assume nc: "\<not> clear_file_chunks_button inp"
  with app_paths [of E inp s]
  have eq: "paths (fst (snd (app E inp s))) = paths (fst (enter_file_path E (file_path inp) s))"
    by simp
  from enter_file_path_paths [of E "file_path inp" s]
  show "take (length (paths s)) (paths (fst (snd (app E inp s)))) = paths s"
    unfolding eq by auto
next
  assume "q \<in> set (paths s)"
  then show "FilePath q \<in> set (all_files_to_process inp s)"
    by (simp add: all_files_to_process_def)
next
  show "paths (fst (snd (clear_file_chunks E s))) = []"
    by (rule clear_file_chunks_paths)
qed

text \<open>The theorem at a path that is entered a second time.\<close>

theorem large_files_accumulate_witness:
  "''a.pdf'' \<noteq> [] \<and> endswith (lower ''a.pdf'') ''.pdf'' \<and> path_exists sample_env ''a.pdf'' \<and>
   getsize sample_env ''a.pdf'' = Inr 10 \<and> (10 :: nat) \<le> 2 * 1024 * 1024 * 1024 \<and>
   paths sample_session = [''a.pdf''] \<and>
   paths (fst (enter_file_path sample_env ''a.pdf'' sample_session)) = [''a.pdf'', ''a.pdf''] \<and>
   \<not> clear_file_chunks_button
       \<lparr>uploaded_files = [], file_path = ''a.pdf'', process_button = True,
        clear_conversation_button = False, clear_file_chunks_button = False,
        chat_input = None\<rparr> \<and>
   paths (fst (snd (app sample_env
       \<lparr>uploaded_files = [], file_path = ''a.pdf'', process_button = True,
        clear_conversation_button = False, clear_file_chunks_button = False,
        chat_input = None\<rparr> sample_session))) = [''a.pdf'', ''a.pdf''] \<and>
   ''a.pdf'' \<in> set (paths sample_session) \<and>
   FilePath ''a.pdf'' \<in> set (all_files_to_process
       \<lparr>uploaded_files = [], file_path = ''a.pdf'', process_button = True,
        clear_conversation_button = False, clear_file_chunks_button = False,
        chat_input = None\<rparr> sample_session)"
proof -
  let ?inp = "\<lparr>uploaded_files = [], file_path = ''a.pdf'', process_button = True,
        clear_conversation_button = False, clear_file_chunks_button = False,
        chat_input = None\<rparr>"
  have h1: "''a.pdf'' \<noteq> [] \<and> endswith (lower ''a.pdf'') ''.pdf'' \<and>
            path_exists sample_env ''a.pdf'' \<and> getsize sample_env ''a.pdf'' = Inr 10 \<and>
            (10 :: nat) \<le> 2 * 1024 * 1024 * 1024"
    by (simp add: endswith_def lower_def lower_char_def sample_env_def sample_getsize_def)
  have h2: "paths sample_session = [''a.pdf'']"
    by (simp add: paths_def sample_session_def)
  have h3: "\<not> clear_file_chunks_button ?inp" "file_path ?inp = ''a.pdf''"
    by simp_all
  have h4: "''a.pdf'' \<in> set (paths sample_session)"
    by (simp add: h2)
  from large_files_accumulate
         [where E = sample_env and files = "[]" and s = sample_session and p = "''a.pdf''"
            and n = 10 and inp = ?inp and q = "''a.pdf''"]
       h1 h2 h3 h4
  show ?thesis by simp
qed

end
